theory Spec2Isabelle
  imports Main "HOL-Library.Signed_Division"
begin

section \<open>The confirmation dialog (src/helper/window.hpp, src/helper/window.cpp)\<close>

text \<open>
  Times are the values of \<open>g_get_monotonic_time()\<close> (microseconds, \<open>gint64\<close>);
  \<open>timeout\<close> is the count of a \<open>std::chrono::seconds\<close>, \<open>min_display_time\<close> the count
  of a \<open>std::chrono::milliseconds\<close>. They are modelled as unbounded integers; the C++
  division \<open>/\<close> on them truncates towards zero, which is \<open>sdiv\<close>.
\<close>

datatype Result = Allow | Deny | Timeout

fun to_string :: "Result \<Rightarrow> string" where
  "to_string Allow = ''ALLOW''"
| "to_string Deny = ''DENY''"
| "to_string Timeout = ''TIMEOUT''"

record WindowParams =
  title :: string
  message :: string
  secondary :: string
  process_exe :: "string option"
  timeout :: int
  min_display_time :: int
  randomize :: bool

text \<open>
  The state of \<open>struct _ConfirmWindow\<close> that the handlers read and write. The parameters
  are stored as a copy. \<open>has_on_result\<close> says whether the \<open>std::function\<close> \<open>on_result\<close>
  holds a target (the test \<open>if (self->on_result)\<close>). Two fields stand for toolkit state:
  \<open>timer_source\<close> is true while the GLib timeout source installed by \<open>g_timeout_add\<close>
  is alive (it is removed when the tick handler returns \<open>G_SOURCE_REMOVE\<close>), and
  \<open>close_called\<close> records the call of \<open>gtk_window_close\<close>.
\<close>

record ConfirmWindow =
  start_time :: int
  allow_enabled :: bool
  result_sent :: bool
  params :: WindowParams
  has_on_result :: bool
  timer_source :: bool
  close_called :: bool

text \<open>
  A handler returns the new window state and the list of results it passed to the
  \<open>on_result\<close> callback (empty or one element).
\<close>

definition send_result :: "ConfirmWindow \<Rightarrow> Result \<Rightarrow> ConfirmWindow \<times> Result list" where
  "send_result self r =
     (if result_sent self then (self, [])
      else (self\<lparr>result_sent := True, close_called := True\<rparr>,
            if has_on_result self then [r] else []))"

definition elapsed_ms :: "ConfirmWindow \<Rightarrow> int \<Rightarrow> int" where
  "elapsed_ms self now = (now - start_time self) sdiv 1000"

definition on_allow_clicked :: "ConfirmWindow \<Rightarrow> int \<Rightarrow> ConfirmWindow \<times> Result list" where
  "on_allow_clicked self now =
     (if \<not> allow_enabled self then (self, [])
      else if elapsed_ms self now < min_display_time (params self) then (self, [])
      else send_result self Allow)"

definition on_deny_clicked :: "ConfirmWindow \<Rightarrow> ConfirmWindow \<times> Result list" where
  "on_deny_clicked self = send_result self Deny"

text \<open>The tick handler also returns its \<open>gboolean\<close>: true is \<open>G_SOURCE_CONTINUE\<close>.\<close>

definition on_timer_tick :: "ConfirmWindow \<Rightarrow> int \<Rightarrow> (ConfirmWindow \<times> Result list) \<times> bool" where
  "on_timer_tick self now =
     (let ms = elapsed_ms self now;
          elapsed_sec = ms sdiv 1000;
          remaining = timeout (params self) - elapsed_sec
      in if remaining \<le> 0 then (send_result self Timeout, False)
         else if \<not> allow_enabled self \<and> min_display_time (params self) \<le> ms
              then ((self\<lparr>allow_enabled := True\<rparr>, []), True)
              else ((self, []), True))"

definition GDK_KEY_Escape :: nat where
  "GDK_KEY_Escape = 0xff1b"

definition on_key_pressed :: "ConfirmWindow \<Rightarrow> nat \<Rightarrow> (ConfirmWindow \<times> Result list) \<times> bool" where
  "on_key_pressed self keyval =
     (if keyval = GDK_KEY_Escape then (send_result self Deny, True)
      else ((self, []), False))"

definition on_close_request :: "ConfirmWindow \<Rightarrow> ConfirmWindow \<times> Result list" where
  "on_close_request self =
     (if \<not> result_sent self then send_result self Deny else (self, []))"

text \<open>
  \<open>confirm_window_new\<close>: the argument \<open>cb\<close> says whether a callback was passed, \<open>now\<close> is
  the clock value stored as \<open>start_time\<close>. \<open>confirm_window_init\<close> clears \<open>allow_enabled\<close>
  and \<open>result_sent\<close>; the timer is installed only for a positive timeout, otherwise the
  accept button is enabled at once.
\<close>

definition confirm_window_new :: "WindowParams \<Rightarrow> bool \<Rightarrow> int \<Rightarrow> ConfirmWindow" where
  "confirm_window_new p cb now =
     \<lparr>start_time = now,
      allow_enabled = (if 0 < timeout p then False else True),
      result_sent = False,
      params = p,
      has_on_result = cb,
      timer_source = (if 0 < timeout p then True else False),
      close_called = False\<rparr>"

text \<open>
  The inputs of one window, as the main loop delivers them. A click and a tick carry
  the clock value their handler reads. A tick is delivered only while the timeout
  source is alive.
\<close>

datatype Event =
    AllowClicked int
  | DenyClicked
  | KeyPressed nat
  | CloseRequest
  | TimerTick int

fun dispatch :: "ConfirmWindow \<Rightarrow> Event \<Rightarrow> ConfirmWindow \<times> Result list" where
  "dispatch w (AllowClicked now) = on_allow_clicked w now"
| "dispatch w DenyClicked = on_deny_clicked w"
| "dispatch w (KeyPressed k) = fst (on_key_pressed w k)"
| "dispatch w CloseRequest = on_close_request w"
| "dispatch w (TimerTick now) =
     (if timer_source w
      then (fst (fst (on_timer_tick w now))\<lparr>timer_source := snd (on_timer_tick w now)\<rparr>,
            snd (fst (on_timer_tick w now)))
      else (w, []))"

fun run_events :: "ConfirmWindow \<Rightarrow> Event list \<Rightarrow> ConfirmWindow \<times> Result list" where
  "run_events w [] = (w, [])"
| "run_events w (e # es) =
     (fst (run_events (fst (dispatch w e)) es),
      snd (dispatch w e) @ snd (run_events (fst (dispatch w e)) es))"


section \<open>The session lock (src/helper/session_lock.hpp, src/helper/session_lock.cpp)\<close>

datatype LockState = Unlocked | Locking | Locked | Failed

text \<open>\<open>LockFailed\<close> is \<open>LockResult::Failed\<close>.\<close>

datatype LockResult = Success | NotSupported | AlreadyLocked | LockFailed

text \<open>
  \<open>lock_instance\<close> says whether \<open>instance_\<close> is non-null, \<open>lock_state\<close> is \<open>state_\<close>,
  and \<open>instance_is_locked\<close> is what \<open>gtk_session_lock_instance_is_locked\<close> answers for
  the instance. The compositor is the environment: whether it supports the protocol,
  whether an instance can be created and whether the lock request is accepted.
\<close>

record SessionLock =
  lock_instance :: bool
  lock_state :: LockState
  instance_is_locked :: bool

record Compositor =
  is_supported :: bool
  instance_new_ok :: bool
  instance_lock_ok :: bool

definition SessionLock_new :: SessionLock where
  "SessionLock_new = \<lparr>lock_instance = False, lock_state = Unlocked, instance_is_locked = False\<rparr>"

definition cleanup :: "SessionLock \<Rightarrow> SessionLock" where
  "cleanup s =
     (if lock_instance s
      then s\<lparr>lock_instance := False, instance_is_locked := False, lock_state := Unlocked\<rparr>
      else s\<lparr>lock_state := Unlocked\<rparr>)"

definition lock :: "Compositor \<Rightarrow> SessionLock \<Rightarrow> LockResult \<times> SessionLock" where
  "lock c s =
     (if \<not> is_supported c then (NotSupported, s)
      else if lock_instance s \<and> instance_is_locked s then (AlreadyLocked, s)
      else if \<not> instance_new_ok c then (LockFailed, cleanup s)
      else if \<not> instance_lock_ok c
           then (LockFailed, (cleanup s)\<lparr>lock_instance := True, lock_state := Failed\<rparr>)
           else (Success, (cleanup s)\<lparr>lock_instance := True, lock_state := Locking\<rparr>))"

definition unlock :: "SessionLock \<Rightarrow> SessionLock" where
  "unlock s =
     (if lock_instance s \<and> instance_is_locked s then s\<lparr>instance_is_locked := False\<rparr> else s)"

definition is_locked :: "SessionLock \<Rightarrow> bool" where
  "is_locked s = (lock_state s = Locked)"

section \<open>The helper program (src/helper/main.cpp)\<close>

record AppConfig =
  app_params :: WindowParams
  use_session_lock :: bool

text \<open>
  The window handed back for a monitor: the confirmation window, or the blank window
  of the other monitors with its \<open>decorated\<close> property and the background of its
  style sheet.
\<close>

datatype Surface = Dialog | Blank bool string

text \<open>
  \<open>AppState\<close> of the source has the fields \<open>config\<close>, \<open>result\<close>, \<open>session_lock\<close>, \<open>app\<close>
  (here: whether the pointer is set) and \<open>first_monitor\<close>. Three more fields stand for
  what the toolkit holds: \<open>quit\<close> (\<open>g_application_quit\<close> was called), \<open>dialog\<close> (the
  confirmation window, once created) and \<open>surfaces\<close> (the windows assigned to monitors,
  in the order of the notifications).
\<close>

record AppState =
  config :: AppConfig
  result :: Result
  session_lock :: SessionLock
  app :: bool
  first_monitor :: bool
  quit :: bool
  dialog :: "ConfirmWindow option"
  surfaces :: "(nat \<times> Surface) list"

definition on_result :: "AppState \<Rightarrow> Result \<Rightarrow> AppState" where
  "on_result st r =
     (let st1 = st\<lparr>result := r\<rparr>;
          st2 = (if is_locked (session_lock st1)
                 then st1\<lparr>session_lock := unlock (session_lock st1)\<rparr> else st1)
      in if app st2 then st2\<lparr>quit := True\<rparr> else st2)"

text \<open>
  The four callbacks that \<open>on_activate_with_lock\<close> installs before it calls \<open>lock()\<close>.
  Each signal handler of \<open>SessionLock\<close> sets \<open>state_\<close> and then calls its callback, which
  is set; handler and callback are one function here.
\<close>

definition on_locked_signal :: "AppState \<Rightarrow> AppState" where
  "on_locked_signal st =
     st\<lparr>session_lock := (session_lock st)\<lparr>lock_state := Locked, instance_is_locked := True\<rparr>\<rparr>"

definition on_failed_signal :: "AppState \<Rightarrow> AppState" where
  "on_failed_signal st =
     st\<lparr>session_lock := (session_lock st)\<lparr>lock_state := Failed\<rparr>, result := Deny, quit := True\<rparr>"

definition on_unlocked_signal :: "AppState \<Rightarrow> AppState" where
  "on_unlocked_signal st =
     st\<lparr>session_lock := (session_lock st)\<lparr>lock_state := Unlocked\<rparr>, quit := True\<rparr>"

text \<open>
  The monitor callback returns the window for the monitor; \<open>now\<close> is the clock value
  that \<open>confirm_window_new\<close> reads when it is the confirmation window.
\<close>

definition monitor_callback :: "AppState \<Rightarrow> nat \<Rightarrow> int \<Rightarrow> AppState \<times> Surface" where
  "monitor_callback st monitor now =
     (if first_monitor st
      then (st\<lparr>first_monitor := False,
                dialog := Some (confirm_window_new (app_params (config st)) True now)\<rparr>, Dialog)
      else (st, Blank False ''window { background: #1a1a1a; }''))"

definition on_monitor_signal :: "AppState \<Rightarrow> nat \<Rightarrow> int \<Rightarrow> AppState" where
  "on_monitor_signal st monitor now =
     (let (st1, window) = monitor_callback st monitor now
      in st1\<lparr>surfaces := surfaces st1 @ [(monitor, window)]\<rparr>)"

definition on_activate_with_lock :: "Compositor \<Rightarrow> AppState \<Rightarrow> AppState" where
  "on_activate_with_lock c st =
     (let st1 = st\<lparr>app := True\<rparr>;
          (r, sl) = lock c (session_lock st1);
          st2 = st1\<lparr>session_lock := sl\<rparr>
      in if r \<noteq> Success then st2\<lparr>result := Deny, quit := True\<rparr> else st2)"

definition on_activate_without_lock :: "AppState \<Rightarrow> int \<Rightarrow> AppState" where
  "on_activate_without_lock st now =
     st\<lparr>app := True, dialog := Some (confirm_window_new (app_params (config st)) True now)\<rparr>"

definition on_activate :: "Compositor \<Rightarrow> AppState \<Rightarrow> int \<Rightarrow> AppState" where
  "on_activate c st now =
     (if use_session_lock (config st) \<and> is_supported c
      then on_activate_with_lock c st
      else on_activate_without_lock st now)"

text \<open>
  What the main loop dispatches after activation. The lock signals reach their
  handlers only while an instance exists (they are connected in \<open>lock()\<close>); a window
  input reaches the confirmation window once it exists.
\<close>

datatype AppEvent =
    LockedSignal
  | FailedSignal
  | UnlockedSignal
  | MonitorSignal nat int
  | WindowEvent Event

fun app_step :: "AppState \<Rightarrow> AppEvent \<Rightarrow> AppState" where
  "app_step st LockedSignal =
     (if lock_instance (session_lock st) then on_locked_signal st else st)"
| "app_step st FailedSignal =
     (if lock_instance (session_lock st) then on_failed_signal st else st)"
| "app_step st UnlockedSignal =
     (if lock_instance (session_lock st) then on_unlocked_signal st else st)"
| "app_step st (MonitorSignal m now) =
     (if lock_instance (session_lock st) then on_monitor_signal st m now else st)"
| "app_step st (WindowEvent e) =
     (case dialog st of
        None \<Rightarrow> st
      | Some w \<Rightarrow> foldl on_result (st\<lparr>dialog := Some (fst (dispatch w e))\<rparr>) (snd (dispatch w e)))"

text \<open>\<open>g_application_run\<close>: events are dispatched until the application quits.\<close>

fun app_run :: "AppState \<Rightarrow> AppEvent list \<Rightarrow> AppState" where
  "app_run st [] = st"
| "app_run st (e # es) = (if quit st then st else app_run (app_step st e) es)"

text \<open>
  \<open>main\<close>. \<open>parsed\<close> is the result of \<open>parse_args\<close> (\<open>None\<close> after \<open>--help\<close>),
  \<open>wayland_display\<close> the environment variable, \<open>activate_time\<close> the clock value at
  activation. The result is what was written to standard output and the exit status,
  or \<open>None\<close> when the events end before the application quits (it is still running).
\<close>

record MainEnv =
  parsed :: "AppConfig option"
  wayland_display :: "string option"
  compositor :: Compositor
  activate_time :: int

definition LF :: char where
  "LF = CHR 0x0A"

definition EXIT_SUCCESS :: int where
  "EXIT_SUCCESS = 0"

definition EXIT_FAILURE :: int where
  "EXIT_FAILURE = 1"

definition initial_state :: "AppConfig \<Rightarrow> AppState" where
  "initial_state cf =
     \<lparr>config = cf, result = Deny, session_lock = SessionLock_new, app = False,
      first_monitor = True, quit = False, dialog = None, surfaces = []\<rparr>"

definition helper_main :: "MainEnv \<Rightarrow> AppEvent list \<Rightarrow> (string \<times> int) option" where
  "helper_main env evs =
     (case parsed env of
        None \<Rightarrow> Some ([], EXIT_SUCCESS)
      | Some cf \<Rightarrow>
          if wayland_display env = None \<or> wayland_display env = Some []
          then Some ([], EXIT_FAILURE)
          else (let st = app_run (on_activate (compositor env) (initial_state cf)
                                    (activate_time env)) evs
                in if quit st
                   then Some (to_string (result st) @ [LF],
                              if result st = Allow then EXIT_SUCCESS else EXIT_FAILURE)
                   else None))"


section \<open>The PAM module (src/pam/pam_sentinel.c)\<close>

datatype pam_code = PAM_SUCCESS | PAM_SYSTEM_ERR | PAM_AUTH_ERR | PAM_USER_UNKNOWN | PAM_IGNORE

text \<open>
  The fields of type \<open>int\<close> are integers (the flags are tested against zero), the
  character arrays are strings. File names are a char list without the final NUL.
\<close>

record confirm_config_t =
  enabled :: int
  cfg_timeout :: int
  randomize_buttons :: int
  show_process_info :: int
  log_attempts :: int
  cfg_min_display_time :: int
  headless_action :: string
  cfg_title :: string
  cfg_message :: string
  cfg_secondary :: string

subsection \<open>C strings\<close>

definition NUL :: char where
  "NUL = CHR 0x00"

definition CR :: char where
  "CR = CHR 0x0D"

text \<open>The string that a buffer holds: its bytes before the first NUL.\<close>

definition c_str :: "string \<Rightarrow> string" where
  "c_str buf = takeWhile (\<lambda>c. c \<noteq> NUL) buf"

definition strcspn :: "string \<Rightarrow> string \<Rightarrow> nat" where
  "strcspn buf reject = length (takeWhile (\<lambda>c. c \<notin> set reject) (c_str buf))"

text \<open>\<open>strcmp(a, b) == 0\<close>.\<close>

definition strcmp_eq :: "string \<Rightarrow> string \<Rightarrow> bool" where
  "strcmp_eq a b = (c_str a = c_str b)"

text \<open>\<open>strncmp(a, b, n) == 0\<close> and \<open>strstr(hay, needle) != NULL\<close>, on strings without NUL.\<close>

definition strncmp_eq :: "string \<Rightarrow> string \<Rightarrow> nat \<Rightarrow> bool" where
  "strncmp_eq a b n = (take n a = take n b)"

fun strstr_found :: "string \<Rightarrow> string \<Rightarrow> bool" where
  "strstr_found [] needle = (needle = [])"
| "strstr_found (c # cs) needle =
     (take (length needle) (c # cs) = needle \<or> strstr_found cs needle)"

text \<open>
  C integers. \<open>c_int\<close> is the value that an \<open>int\<close> (32 bits, two's complement) holds
  for a mathematical result: in range it is the result itself, out of range the
  result wrapped around, which is what the compiled module computes.
  \<open>c_long_saturate\<close> is what \<open>strtol\<close> does with a value outside the range of \<open>long\<close>
  (64 bits): it returns the nearest bound.
\<close>

definition c_int :: "int \<Rightarrow> int" where
  "c_int i = (i + 2 ^ 31) mod 2 ^ 32 - 2 ^ 31"

definition c_long_saturate :: "int \<Rightarrow> int" where
  "c_long_saturate i = max (- (2 ^ 63)) (min (2 ^ 63 - 1) i)"

text \<open>
  \<open>atoi\<close>, which is \<open>(int) strtol(s, NULL, 10)\<close>: white space, an optional sign, then
  decimal digits; the value of the digits is saturated to the range of \<open>long\<close> and
  then converted to \<open>int\<close>.
\<close>

definition isspace :: "char \<Rightarrow> bool" where
  "isspace c = (c \<in> set [CHR '' '', CHR 0x09, CHR 0x0A, CHR 0x0B, CHR 0x0C, CHR 0x0D])"

definition isdigit :: "char \<Rightarrow> bool" where
  "isdigit c = (48 \<le> (of_char c :: nat) \<and> (of_char c :: nat) \<le> 57)"

fun digits_value :: "int \<Rightarrow> string \<Rightarrow> int" where
  "digits_value acc [] = acc"
| "digits_value acc (c # cs) =
     (if isdigit c then digits_value (10 * acc + (of_char c - 48)) cs else acc)"

definition signed_digits :: "string \<Rightarrow> int" where
  "signed_digits s =
     (case dropWhile isspace s of
        [] \<Rightarrow> 0
      | c # cs \<Rightarrow>
          if c = CHR ''-'' then - digits_value 0 cs
          else if c = CHR ''+'' then digits_value 0 cs
          else digits_value 0 (c # cs))"

definition atoi :: "string \<Rightarrow> int" where
  "atoi s = c_int (c_long_saturate (signed_digits s))"

text \<open>The cast \<open>(uid_t)\<close> of an \<open>int\<close>: \<open>uid_t\<close> is unsigned, 32 bits wide.\<close>

definition uid_of_int :: "int \<Rightarrow> nat" where
  "uid_of_int i = nat (i mod 2 ^ 32)"

text \<open>\<open>snprintf\<close> with \<open>%d\<close>.\<close>

fun show_nat :: "nat \<Rightarrow> string" where
  "show_nat n =
     (if n < 10 then [char_of (48 + n)]
      else show_nat (n div 10) @ [char_of (48 + n mod 10)])"

definition show_int :: "int \<Rightarrow> string" where
  "show_int i = (if i < 0 then CHR ''-'' # show_nat (nat (- i)) else show_nat (nat i))"

text \<open>The \<open>int\<close> that \<open>%d\<close> prints when it is given a \<open>uid_t\<close>.\<close>

definition int_of_uid :: "nat \<Rightarrow> int" where
  "int_of_uid u = (if u < 2 ^ 31 then int u else int u - 2 ^ 32)"

subsection \<open>Display detection\<close>

text \<open>
  The process environment is a map from names to values. \<open>opendir\<close> and \<open>readdir\<close> on
  \<open>/run/user/<uid>\<close> are the function \<open>run_user_dir\<close>: \<open>None\<close> when the directory cannot
  be opened, else its entries in the order \<open>readdir\<close> gives them.
\<close>

type_synonym environ = "string \<rightharpoonup> string"

fun scan_entries :: "environ \<Rightarrow> string \<Rightarrow> string list \<Rightarrow> int \<times> environ" where
  "scan_entries env runtime_dir [] = (0, env)"
| "scan_entries env runtime_dir (d_name # rest) =
     (if strncmp_eq d_name ''wayland-'' 8 \<and> \<not> strstr_found d_name ''.lock''
      then (1, (let env1 = env(''WAYLAND_DISPLAY'' \<mapsto> d_name)
                in if env1 ''XDG_RUNTIME_DIR'' = None
                   then env1(''XDG_RUNTIME_DIR'' \<mapsto> runtime_dir) else env1))
      else scan_entries env runtime_dir rest)"

definition find_wayland_display ::
  "environ \<Rightarrow> (nat \<Rightarrow> string list option) \<Rightarrow> nat \<Rightarrow> int \<times> environ" where
  "find_wayland_display env run_user_dir uid =
     (if env ''WAYLAND_DISPLAY'' \<noteq> None \<and> env ''WAYLAND_DISPLAY'' \<noteq> Some [] then (1, env)
      else (case run_user_dir uid of
              None \<Rightarrow> (0, env)
            | Some entries \<Rightarrow> scan_entries env (''/run/user/'' @ show_int (int_of_uid uid)) entries))"

definition has_display ::
  "environ \<Rightarrow> (nat \<Rightarrow> string list option) \<Rightarrow> nat \<Rightarrow> int \<times> environ" where
  "has_display env run_user_dir uid = find_wayland_display env run_user_dir uid"

subsection \<open>The child of \<open>run_helper\<close>\<close>

record passwd =
  pw_name :: string
  pw_uid :: nat
  pw_gid :: nat
  pw_dir :: string

text \<open>
  What the child asks of the system: its environment, its own identity, the user
  database, and whether each of the calls that can fail succeeds.
\<close>

record child_sys =
  child_environ :: environ
  getuid :: nat
  getgid :: nat
  getpwnam :: "string \<Rightarrow> passwd option"
  getpwuid :: "nat \<Rightarrow> passwd option"
  initgroups_ok :: bool
  setgid_ok :: bool
  setuid_ok :: bool
  dup2_ok :: bool
  execv_ok :: bool

text \<open>
  The calls of the child, in the order it makes them. A trace that ends with
  \<open>C_execv\<close> is a child whose program image was replaced by the helper; after a failed
  \<open>execv\<close> the trace goes on. \<open>C_write_stdout\<close> is a write to the pipe (standard output
  after \<open>dup2\<close>).
\<close>

datatype child_call =
    C_close_read
  | C_setenv string string
  | C_initgroups string nat
  | C_setgid nat
  | C_setuid nat
  | C_dup2_stdout
  | C_close_write
  | C_execv "string list"
  | C_write_stdout string
  | C_exit int

definition target_ids :: "child_sys \<Rightarrow> string \<Rightarrow> nat \<times> nat" where
  "target_ids sys user =
     (case child_environ sys ''SUDO_UID'' of
        Some sudo_uid \<Rightarrow> (uid_of_int (atoi sudo_uid), getgid sys)
      | None \<Rightarrow>
          (case child_environ sys ''PKEXEC_UID'' of
             Some pkexec_uid \<Rightarrow> (uid_of_int (atoi pkexec_uid), getgid sys)
           | None \<Rightarrow>
               (case getpwnam sys user of
                  Some pw \<Rightarrow> (pw_uid pw, pw_gid pw)
                | None \<Rightarrow> (getuid sys, getgid sys))))"

definition helper_args ::
  "string \<Rightarrow> confirm_config_t \<Rightarrow> string \<Rightarrow> string \<Rightarrow> string \<Rightarrow> string list" where
  "helper_args helper_path cfg formatted_message formatted_secondary process_exe_path =
     [helper_path, ''--title'', cfg_title cfg, ''--message'', formatted_message,
      ''--secondary'', formatted_secondary, ''--timeout'', show_int (cfg_timeout cfg),
      ''--min-time'', show_int (cfg_min_display_time cfg)]
     @ (if randomize_buttons cfg \<noteq> 0 then [''--randomize''] else [])
     @ (if show_process_info cfg \<noteq> 0 then [''--process-exe'', process_exe_path] else [])"

text \<open>
  The branch \<open>pid == 0\<close> of \<open>run_helper\<close>. \<open>args\<close> is the argument vector of the helper
  (\<open>HELPER_PATH\<close> comes from \<open>config.h\<close>).
\<close>

definition run_helper_child :: "child_sys \<Rightarrow> string \<Rightarrow> string list \<Rightarrow> child_call list" where
  "run_helper_child sys user args =
     (let target_uid = fst (target_ids sys user);
          pw = getpwuid sys target_uid;
          target_gid = (case pw of Some p \<Rightarrow> pw_gid p | None \<Rightarrow> snd (target_ids sys user));
          t0 = C_close_read #
               (case pw of
                  Some p \<Rightarrow> [C_setenv ''HOME'' (pw_dir p), C_setenv ''USER'' (pw_name p),
                             C_setenv ''LOGNAME'' (pw_name p), C_initgroups (pw_name p) target_gid]
                | None \<Rightarrow> [])
      in if pw \<noteq> None \<and> \<not> initgroups_ok sys then t0 @ [C_exit 1]
         else if \<not> setgid_ok sys then t0 @ [C_setgid target_gid, C_exit 1]
         else if \<not> setuid_ok sys
              then t0 @ [C_setgid target_gid, C_setuid target_uid, C_exit 1]
         else if \<not> dup2_ok sys
              then t0 @ [C_setgid target_gid, C_setuid target_uid, C_dup2_stdout, C_exit 1]
         else if execv_ok sys
              then t0 @ [C_setgid target_gid, C_setuid target_uid, C_dup2_stdout, C_close_write,
                         C_execv args]
         else t0 @ [C_setgid target_gid, C_setuid target_uid, C_dup2_stdout, C_close_write,
                    C_execv args, C_write_stdout (''DENY'' @ [LF]), C_exit 1])"

text \<open>
  The pipe. It receives the writes of the child itself and, when \<open>execv\<close> succeeded,
  the writes of the helper program, one after the other; a write of no bytes leaves no
  trace. \<open>channel_writes\<close> is that sequence of writes, \<open>channel_content\<close> all the bytes
  the pipe has received when its write end is closed.
\<close>

fun child_write_list :: "child_call list \<Rightarrow> string list" where
  "child_write_list [] = []"
| "child_write_list (C_write_stdout s # cs) = s # child_write_list cs"
| "child_write_list (c # cs) = child_write_list cs"

definition child_writes :: "child_call list \<Rightarrow> string" where
  "child_writes t = concat (child_write_list t)"

definition exec_succeeded :: "child_call list \<Rightarrow> bool" where
  "exec_succeeded t = (case rev t of C_execv a # rest \<Rightarrow> True | _ \<Rightarrow> False)"

definition channel_writes :: "child_call list \<Rightarrow> string list \<Rightarrow> string list" where
  "channel_writes t helper_writes =
     filter (\<lambda>s. s \<noteq> [])
       (child_write_list t @ (if exec_succeeded t then helper_writes else []))"

definition channel_content :: "child_call list \<Rightarrow> string list \<Rightarrow> string" where
  "channel_content t helper_writes = concat (channel_writes t helper_writes)"

text \<open>The identity changes of a trace, and its calls of \<open>execv\<close>.\<close>

fun is_identity_call :: "child_call \<Rightarrow> bool" where
  "is_identity_call (C_initgroups n g) = True"
| "is_identity_call (C_setgid g) = True"
| "is_identity_call (C_setuid u) = True"
| "is_identity_call c = False"

definition identity_calls :: "child_call list \<Rightarrow> child_call list" where
  "identity_calls t = filter is_identity_call t"

fun is_execv :: "child_call \<Rightarrow> bool" where
  "is_execv (C_execv a) = True"
| "is_execv c = False"

definition execv_calls :: "child_call list \<Rightarrow> child_call list" where
  "execv_calls t = filter is_execv t"

text \<open>
  The identity changes of a child that gets as far as \<open>execv\<close>, read off the source:
  with an entry of the user database for the target uid, \<open>initgroups\<close> with the name
  and the group of the entry, then \<open>setgid\<close>, then \<open>setuid\<close>; without an entry (the
  test \<open>if (pw)\<close> fails) only \<open>setgid\<close> and \<open>setuid\<close>.
\<close>

definition expected_identity_calls :: "child_sys \<Rightarrow> string \<Rightarrow> child_call list" where
  "expected_identity_calls sys user =
     (case getpwuid sys (fst (target_ids sys user)) of
        Some p \<Rightarrow> [C_initgroups (pw_name p) (pw_gid p), C_setgid (pw_gid p),
                   C_setuid (fst (target_ids sys user))]
      | None \<Rightarrow> [C_setgid (snd (target_ids sys user)), C_setuid (fst (target_ids sys user))])"

subsection \<open>The parent of \<open>run_helper\<close>\<close>

datatype parent_call =
    P_pipe
  | P_fork
  | P_close_read
  | P_close_write
  | P_select int
  | P_kill_SIGKILL
  | P_waitpid
  | P_read nat
  | P_syslog string

definition log_if :: "confirm_config_t \<Rightarrow> string \<Rightarrow> parent_call list" where
  "log_if cfg msg = (if log_attempts cfg \<noteq> 0 then [P_syslog msg] else [])"

text \<open>
  The parent after \<open>fork\<close>. \<open>sel\<close> is what \<open>select\<close> returns, \<open>rd\<close> what the pipe holds
  when \<open>read\<close> is called (\<open>None\<close>: \<open>read\<close> fails). \<open>read\<close> takes at most 15 bytes into the
  16-byte buffer \<open>result\<close>. \<open>P_select\<close> carries \<open>tv_sec\<close>, the sum \<open>cfg->timeout + 5\<close>
  computed in \<open>int\<close>.
\<close>

definition run_helper_parent ::
  "confirm_config_t \<Rightarrow> int \<Rightarrow> string option \<Rightarrow> pam_code \<times> parent_call list" where
  "run_helper_parent cfg sel rd =
     (let t0 = [P_close_write, P_select (c_int (cfg_timeout cfg + 5))]
      in if sel \<le> 0
         then (PAM_AUTH_ERR,
               t0 @ [P_kill_SIGKILL, P_waitpid, P_close_read] @ log_if cfg ''helper timeout'')
         else (let t1 = t0 @ [P_read 15, P_close_read, P_waitpid]
               in case rd of
                    None \<Rightarrow> (PAM_AUTH_ERR, t1 @ log_if cfg ''helper returned no result'')
                  | Some bytes \<Rightarrow>
                      (let got = take 15 bytes
                       in if length got \<le> 0
                          then (PAM_AUTH_ERR, t1 @ log_if cfg ''helper returned no result'')
                          else (let result0 = got @ [NUL];
                                    result1 = result0[strcspn result0 [LF, CR] := NUL]
                                in (if strcmp_eq result1 ''ALLOW'' then PAM_SUCCESS
                                    else PAM_AUTH_ERR,
                                    t1 @ log_if cfg (c_str result1))))))"

text \<open>
  The line that the parent compares with \<open>ALLOW\<close>, said directly: of the at most 15
  bytes read, those before the first NUL, line feed or carriage return.
\<close>

definition first_line :: "string \<Rightarrow> string" where
  "first_line bytes = takeWhile (\<lambda>c. c \<noteq> NUL \<and> c \<noteq> LF \<and> c \<noteq> CR) (take 15 bytes)"

text \<open>
  The first line in the words of the specification of the token protocol, where a
  line is ended by a newline: the bytes before the first line feed.
\<close>

definition newline_terminated_line :: "string \<Rightarrow> string" where
  "newline_terminated_line bytes = takeWhile (\<lambda>c. c \<noteq> LF) bytes"

text \<open>
  \<open>run_helper\<close>: \<open>pipe\<close>, \<open>fork\<close>, then child and parent. What is computed before the
  fork (the formatted messages, the path of the calling process) and \<open>HELPER_PATH\<close> are
  given in \<open>spawn_inputs\<close>. \<open>helper_writes\<close> are the writes of the helper program to its
  standard output if it is started.

  The parent reads once. Its \<open>read\<close> returns what has arrived at that moment:
  \<open>chunks_arrived\<close> says how many of the writes to the pipe have been made by then. When
  \<open>select\<close> has reported the pipe readable and something is written to it at all, at
  least the first write has arrived; when nothing is written, the read meets the end
  of the file.
\<close>

record spawn_inputs =
  helper_path :: string
  formatted_message :: string
  formatted_secondary :: string
  process_exe_path :: string

record parent_sys =
  pipe_ok :: bool
  fork_ok :: bool
  select_ret :: int
  read_ok :: bool
  chunks_arrived :: nat

definition arrived :: "nat \<Rightarrow> string list \<Rightarrow> string" where
  "arrived n writes = concat (take (max 1 n) writes)"

definition run_helper ::
  "confirm_config_t \<Rightarrow> parent_sys \<Rightarrow> child_sys \<Rightarrow> string \<Rightarrow> spawn_inputs \<Rightarrow> string list
     \<Rightarrow> pam_code \<times> parent_call list \<times> child_call list" where
  "run_helper cfg psys csys user inp helper_writes =
     (if \<not> pipe_ok psys then (PAM_SYSTEM_ERR, [P_pipe, P_syslog ''pipe() failed''], [])
      else if \<not> fork_ok psys
           then (PAM_SYSTEM_ERR,
                 [P_pipe, P_fork, P_syslog ''fork() failed'', P_close_read, P_close_write], [])
      else (let child = run_helper_child csys user
                          (helper_args (helper_path inp) cfg (formatted_message inp)
                             (formatted_secondary inp) (process_exe_path inp));
                (code, calls) = run_helper_parent cfg (select_ret psys)
                                  (if read_ok psys
                                   then Some (arrived (chunks_arrived psys)
                                                (channel_writes child helper_writes))
                                   else None)
            in (code, [P_pipe, P_fork] @ calls, child)))"

subsection \<open>\<open>pam_sm_authenticate\<close>\<close>

text \<open>
  \<open>pam_user\<close> is the name that \<open>pam_get_user\<close> delivers (\<open>None\<close>: it fails or gives no
  name), \<open>loaded_cfg\<close> the configuration that \<open>load_config\<close> leaves. The result is the return
  value, the calls of the module's own process and the calls of the child (empty when
  none was created).
\<close>

record auth_sys =
  pam_user :: "string option"
  loaded_cfg :: confirm_config_t
  run_user_dir :: "nat \<Rightarrow> string list option"
  parent :: parent_sys
  child :: child_sys
  spawn :: spawn_inputs
  helper_output :: "string list"

definition auth_target_uid :: "auth_sys \<Rightarrow> string \<Rightarrow> nat" where
  "auth_target_uid sys user =
     (case getpwnam (child sys) user of Some pw \<Rightarrow> pw_uid pw | None \<Rightarrow> getuid (child sys))"

definition pam_sm_authenticate ::
  "auth_sys \<Rightarrow> pam_code \<times> parent_call list \<times> child_call list" where
  "pam_sm_authenticate sys =
     (case pam_user sys of
        None \<Rightarrow> (PAM_USER_UNKNOWN, [P_syslog ''cannot get username''], [])
      | Some user \<Rightarrow>
          if enabled (loaded_cfg sys) = 0 then (PAM_IGNORE, [P_syslog ''disabled for service''], [])
          else (let target_uid = auth_target_uid sys user;
                    (found, env1) = has_display (child_environ (child sys)) (run_user_dir sys)
                                      target_uid
                in if found = 0
                   then (if headless_action (loaded_cfg sys) = ''allow''
                         then (PAM_SUCCESS, [P_syslog ''no display, allowing''], [])
                         else if headless_action (loaded_cfg sys) = ''deny''
                         then (PAM_AUTH_ERR, [P_syslog ''no display, denying''], [])
                         else (PAM_IGNORE, [P_syslog ''no display, falling back to password''], []))
                   else run_helper (loaded_cfg sys) (parent sys)
                          ((child sys)\<lparr>child_environ := env1\<rparr>) user (spawn sys)
                          (helper_output sys)))"


section \<open>Concrete inputs\<close>

text \<open>Inputs on which the theorems below are evaluated.\<close>

definition params_30s_550ms :: WindowParams where
  "params_30s_550ms =
     \<lparr>title = ''Authentication Required'', message = ''m'', secondary = ''s'',
      process_exe = None, timeout = 30, min_display_time = 550, randomize = False\<rparr>"

definition params_no_timeout :: WindowParams where
  "params_no_timeout =
     \<lparr>title = ''Authentication Required'', message = ''m'', secondary = ''s'',
      process_exe = None, timeout = 0, min_display_time = 500, randomize = False\<rparr>"

definition app_config_lock :: AppConfig where
  "app_config_lock = \<lparr>app_params = params_30s_550ms, use_session_lock = True\<rparr>"

definition compositor_accepting :: Compositor where
  "compositor_accepting = \<lparr>is_supported = True, instance_new_ok = True, instance_lock_ok = True\<rparr>"

definition compositor_refusing :: Compositor where
  "compositor_refusing = \<lparr>is_supported = True, instance_new_ok = True, instance_lock_ok = False\<rparr>"

definition main_env :: "Compositor \<Rightarrow> MainEnv" where
  "main_env c =
     \<lparr>parsed = Some app_config_lock, wayland_display = Some ''wayland-0'', compositor = c,
      activate_time = 0\<rparr>"

definition default_cfg :: confirm_config_t where
  "default_cfg =
     \<lparr>enabled = 1, cfg_timeout = 30, randomize_buttons = 1, show_process_info = 1,
      log_attempts = 1, cfg_min_display_time = 500, headless_action = ''password'',
      cfg_title = ''Authentication Required'', cfg_message = ''m'', cfg_secondary = ''s''\<rparr>"

definition alice :: passwd where
  "alice = \<lparr>pw_name = ''alice'', pw_uid = 1000, pw_gid = 1000, pw_dir = ''/home/alice''\<rparr>"

text \<open>
  A child started under \<open>sudo\<close> by user 1000, who is in the user database, and one
  whose \<open>SUDO_UID\<close> names a user that the database does not know.
\<close>

definition sys_alice :: child_sys where
  "sys_alice =
     \<lparr>child_environ = [''SUDO_UID'' \<mapsto> ''1000''], getuid = 0, getgid = 0,
      getpwnam = (\<lambda>n. if n = ''alice'' then Some alice else None),
      getpwuid = (\<lambda>u. if u = 1000 then Some alice else None),
      initgroups_ok = True, setgid_ok = True, setuid_ok = True, dup2_ok = True,
      execv_ok = True\<rparr>"

definition sys_unknown_uid :: child_sys where
  "sys_unknown_uid =
     \<lparr>child_environ = [''SUDO_UID'' \<mapsto> ''4242''], getuid = 0, getgid = 0,
      getpwnam = (\<lambda>n. if n = ''alice'' then Some alice else None),
      getpwuid = (\<lambda>u. if u = 1000 then Some alice else None),
      initgroups_ok = True, setgid_ok = True, setuid_ok = True, dup2_ok = True,
      execv_ok = True\<rparr>"

definition psys_data :: parent_sys where
  "psys_data =
     \<lparr>pipe_ok = True, fork_ok = True, select_ret = 1, read_ok = True, chunks_arrived = 1\<rparr>"

definition spawn_example :: spawn_inputs where
  "spawn_example =
     \<lparr>helper_path = ''/usr/lib/sentinel-helper'', formatted_message = ''m'',
      formatted_secondary = ''s'', process_exe_path = ''/usr/bin/sudo''\<rparr>"

text \<open>An attempt for a user without a Wayland socket, under a given configuration.\<close>

definition auth_headless :: "confirm_config_t \<Rightarrow> auth_sys" where
  "auth_headless c =
     \<lparr>pam_user = Some ''alice'', loaded_cfg = c,
      run_user_dir = (\<lambda>u. if u = 1000 then Some [''bus'', ''wayland-0.lock''] else None),
      parent = psys_data, child = sys_alice\<lparr>child_environ := Map.empty\<rparr>,
      spawn = spawn_example, helper_output = [''ALLOW'' @ [LF]]\<rparr>"

section \<open>Properties of the confirmation dialog\<close>

lemma send_result_sent: "result_sent w \<Longrightarrow> send_result w r = (w, [])"
  by (simp add: send_result_def)

lemma send_result_fresh:
  "\<not> result_sent w \<Longrightarrow>
   send_result w r = (w\<lparr>result_sent := True, close_called := True\<rparr>, if has_on_result w then [r] else [])"
  by (simp add: send_result_def)

lemma dispatch_after_decision:
  "result_sent w \<Longrightarrow> snd (dispatch w e) = [] \<and> result_sent (fst (dispatch w e))"
  by (cases e)
     (simp_all add: on_allow_clicked_def on_deny_clicked_def on_key_pressed_def
        on_close_request_def on_timer_tick_def send_result_def Let_def)

lemma dispatch_input_after_decision:
  "result_sent w \<Longrightarrow> (\<forall>t. e \<noteq> TimerTick t) \<Longrightarrow> dispatch w e = (w, [])"
  by (cases e)
     (simp_all add: on_allow_clicked_def on_deny_clicked_def on_key_pressed_def
        on_close_request_def send_result_def)

lemma run_events_after_decision:
  "result_sent w \<Longrightarrow> snd (run_events w evs) = [] \<and> result_sent (fst (run_events w evs))"
proof (induction evs arbitrary: w)
  case Nil
  then show ?case by simp
next
  case (Cons e evs)
  from Cons.prems have d: "snd (dispatch w e) = []" "result_sent (fst (dispatch w e))"
    using dispatch_after_decision by blast+
  from Cons.IH [OF d(2)] d(1) show ?case by simp
qed

lemma dispatch_emits:
  "snd (dispatch w e) = [] \<or> (\<exists>r. snd (dispatch w e) = [r] \<and> result_sent (fst (dispatch w e)))"
  by (cases e)
     (simp_all add: on_allow_clicked_def on_deny_clicked_def on_key_pressed_def
        on_close_request_def on_timer_tick_def send_result_def Let_def)

lemma run_events_at_most_one: "length (snd (run_events w evs)) \<le> 1"
proof (induction evs arbitrary: w)
  case Nil
  then show ?case by simp
next
  case (Cons e evs)
  consider "snd (dispatch w e) = []"
    | r where "snd (dispatch w e) = [r]" "result_sent (fst (dispatch w e))"
    using dispatch_emits by blast
  then show ?case
  proof cases
    case 1
    with Cons.IH [of "fst (dispatch w e)"] show ?thesis by simp
  next
    case 2
    with run_events_after_decision [of "fst (dispatch w e)" evs] show ?thesis by simp
  qed
qed

lemma run_events_append:
  "run_events w (xs @ ys) =
     (fst (run_events (fst (run_events w xs)) ys),
      snd (run_events w xs) @ snd (run_events (fst (run_events w xs)) ys))"
  by (induction xs arbitrary: w) simp_all

lemma dispatch_keeps:
  "start_time (fst (dispatch w e)) = start_time w \<and> params (fst (dispatch w e)) = params w
   \<and> has_on_result (fst (dispatch w e)) = has_on_result w"
  by (cases e)
     (simp_all add: on_allow_clicked_def on_deny_clicked_def on_key_pressed_def
        on_close_request_def on_timer_tick_def send_result_def Let_def)

lemma elapsed_ms_dispatch: "elapsed_ms (fst (dispatch w e)) t = elapsed_ms w t"
  by (simp add: elapsed_ms_def dispatch_keeps)

lemma dispatch_Allow:
  "Allow \<in> set (snd (dispatch w e)) \<Longrightarrow>
   \<exists>t. e = AllowClicked t \<and> allow_enabled w \<and> \<not> result_sent w
       \<and> min_display_time (params w) \<le> elapsed_ms w t"
  by (cases e)
     (auto simp add: on_allow_clicked_def on_deny_clicked_def on_key_pressed_def
        on_close_request_def on_timer_tick_def send_result_def Let_def split: if_splits)

lemma run_events_no_early_Allow:
  "(\<forall>t. AllowClicked t \<in> set evs \<longrightarrow> elapsed_ms w t < min_display_time (params w)) \<Longrightarrow>
   Allow \<notin> set (snd (run_events w evs))"
proof (induction evs arbitrary: w)
  case Nil
  then show ?case by simp
next
  case (Cons e evs)
  have a: "Allow \<notin> set (snd (dispatch w e))"
  proof
    assume "Allow \<in> set (snd (dispatch w e))"
    then obtain t where "e = AllowClicked t" "min_display_time (params w) \<le> elapsed_ms w t"
      using dispatch_Allow by blast
    with Cons.prems show False by fastforce
  qed
  have "\<forall>t. AllowClicked t \<in> set evs \<longrightarrow>
          elapsed_ms (fst (dispatch w e)) t < min_display_time (params (fst (dispatch w e)))"
    using Cons.prems by (simp add: elapsed_ms_dispatch dispatch_keeps)
  from Cons.IH [OF this] a show ?case by simp
qed

lemma accept_once:
  "\<not> result_sent w \<Longrightarrow> allow_enabled w \<Longrightarrow> has_on_result w \<Longrightarrow>
   min_display_time (params w) \<le> elapsed_ms w now \<Longrightarrow>
   snd (run_events w (AllowClicked now # rest)) = [Allow]"
  using run_events_after_decision [of "fst (on_allow_clicked w now)" rest]
  by (simp add: on_allow_clicked_def send_result_def)

lemma timer_off_dispatch:
  "\<not> timer_source w \<Longrightarrow> \<not> timer_source (fst (dispatch w e)) \<and> Timeout \<notin> set (snd (dispatch w e))"
  by (cases e)
     (simp_all add: on_allow_clicked_def on_deny_clicked_def on_key_pressed_def
        on_close_request_def send_result_def)

lemma timer_off_run:
  "\<not> timer_source w \<Longrightarrow> Timeout \<notin> set (snd (run_events w evs))"
proof (induction evs arbitrary: w)
  case Nil
  then show ?case by simp
next
  case (Cons e evs)
  from timer_off_dispatch [OF Cons.prems, of e] Cons.IH [of "fst (dispatch w e)"]
  show ?case by simp
qed

lemma accept_noop_iff:
  "\<not> result_sent w \<Longrightarrow>
   (on_allow_clicked w now = (w, [])) =
   (\<not> allow_enabled w \<or> elapsed_ms w now < min_display_time (params w))"
proof -
  assume n: "\<not> result_sent w"
  have "w\<lparr>result_sent := True, close_called := True\<rparr> \<noteq> w"
  proof
    assume "w\<lparr>result_sent := True, close_called := True\<rparr> = w"
    then have "result_sent (w\<lparr>result_sent := True, close_called := True\<rparr>) = result_sent w"
      by simp
    with n show False by simp
  qed
  with n show ?thesis by (simp add: on_allow_clicked_def send_result_def)
qed



lemma allow_enabled_new: "allow_enabled (confirm_window_new p cb t0) = (timeout p \<le> 0)"
  by (auto simp add: confirm_window_new_def)

lemma tick_sets_allow_enabled:
  "timer_source w \<Longrightarrow> \<not> allow_enabled w \<Longrightarrow>
   allow_enabled (fst (dispatch w (TimerTick now)))
     = (elapsed_ms w now sdiv 1000 < timeout (params w)
        \<and> min_display_time (params w) \<le> elapsed_ms w now)"
  by (auto simp add: on_timer_tick_def send_result_def Let_def)

lemma other_inputs_keep_allow_enabled:
  "(\<forall>t. e \<noteq> TimerTick t) \<Longrightarrow> allow_enabled (fst (dispatch w e)) = allow_enabled w"
  by (cases e)
     (simp_all add: on_allow_clicked_def on_deny_clicked_def on_key_pressed_def
        on_close_request_def send_result_def)

lemma dead_timer_tick: "\<not> timer_source w \<Longrightarrow> dispatch w (TimerTick now) = (w, [])"
  by simp

lemma allow_enabled_dispatch: "allow_enabled w \<Longrightarrow> allow_enabled (fst (dispatch w e))"
  by (cases e)
     (simp_all add: on_allow_clicked_def on_deny_clicked_def on_key_pressed_def
        on_close_request_def on_timer_tick_def send_result_def Let_def)

lemma allow_enabled_run: "allow_enabled w \<Longrightarrow> allow_enabled (fst (run_events w evs))"
  by (induction evs arbitrary: w) (simp_all add: allow_enabled_dispatch)

subsection \<open>The helper program\<close>

lemma app_run_quit: "quit st \<Longrightarrow> app_run st evs = st"
  by (cases evs) simp_all

lemma app_run_append: "app_run st (xs @ ys) = app_run (app_run st xs) ys"
proof (induction xs arbitrary: st)
  case Nil
  then show ?case by simp
next
  case (Cons e xs)
  then show ?case by (simp add: app_run_quit)
qed

lemma on_result_app: "app st \<Longrightarrow> quit (on_result st r) \<and> result (on_result st r) = r"
  by (simp add: on_result_def Let_def)

lemma window_decision_quits:
  assumes "\<not> quit st" "app st" "dialog st = Some w" "snd (dispatch w e) = [r]"
  shows "quit (app_run st (WindowEvent e # rest)) \<and> result (app_run st (WindowEvent e # rest)) = r"
proof -
  have s: "app_step st (WindowEvent e) = on_result (st\<lparr>dialog := Some (fst (dispatch w e))\<rparr>) r"
    using assms by simp
  have "app (st\<lparr>dialog := Some (fst (dispatch w e))\<rparr>)" using assms by simp
  from on_result_app [OF this, of r] s assms(1) show ?thesis
    by (simp add: app_run_quit)
qed

lemma helper_main_token:
  "parsed env = Some cf \<Longrightarrow> wayland_display env = Some d \<Longrightarrow> d \<noteq> [] \<Longrightarrow>
   helper_main env evs = Some (out, code) \<Longrightarrow>
   out = ''ALLOW'' @ [LF] \<or> out = ''DENY'' @ [LF] \<or> out = ''TIMEOUT'' @ [LF]"
  by (cases "result (app_run (on_activate (compositor env) (initial_state cf) (activate_time env)) evs)")
     (auto simp add: helper_main_def Let_def split: if_splits)

lemma lock_instance_on_result:
  "lock_instance (session_lock (on_result st r)) = lock_instance (session_lock st)"
  by (simp add: on_result_def Let_def unlock_def)

lemma lock_instance_foldl:
  "lock_instance (session_lock (foldl on_result st rs)) = lock_instance (session_lock st)"
  by (induction rs arbitrary: st) (simp_all add: lock_instance_on_result)

lemma lock_instance_step:
  "lock_instance (session_lock (app_step st e)) = lock_instance (session_lock st)"
  by (cases e)
     (simp_all add: on_locked_signal_def on_failed_signal_def on_unlocked_signal_def
        on_monitor_signal_def monitor_callback_def lock_instance_foldl split: option.splits)

lemma lock_instance_run:
  "lock_instance (session_lock (app_run st evs)) = lock_instance (session_lock st)"
  by (induction evs arbitrary: st) (simp_all add: lock_instance_step)

lemma failed_signal_denies:
  assumes "lock_instance (session_lock st)" "\<not> quit (app_run st pre)"
  shows "quit (app_run st (pre @ FailedSignal # post))
         \<and> result (app_run st (pre @ FailedSignal # post)) = Deny"
proof -
  have "lock_instance (session_lock (app_run st pre))"
    using assms(1) by (simp add: lock_instance_run)
  then have "app_step (app_run st pre) FailedSignal = on_failed_signal (app_run st pre)" by simp
  then show ?thesis using assms(2)
    by (simp add: app_run_append app_run_quit on_failed_signal_def)
qed

lemma activate_lock_ok:
  assumes "use_session_lock cf" "is_supported c" "instance_new_ok c" "instance_lock_ok c"
  shows "on_activate c (initial_state cf) t0 =
         (initial_state cf)\<lparr>app := True,
            session_lock := \<lparr>lock_instance = True, lock_state = Locking, instance_is_locked = False\<rparr>\<rparr>"
  using assms
  by (simp add: on_activate_def on_activate_with_lock_def lock_def cleanup_def
        initial_state_def SessionLock_new_def Let_def)

lemma activate_lock_refused:
  assumes "use_session_lock cf" "is_supported c" "\<not> instance_new_ok c \<or> \<not> instance_lock_ok c"
  shows "quit (on_activate c (initial_state cf) t0) \<and> result (on_activate c (initial_state cf) t0) = Deny"
  using assms
  by (auto simp add: on_activate_def on_activate_with_lock_def lock_def cleanup_def
        initial_state_def SessionLock_new_def Let_def)

lemma helper_main_quit:
  assumes "parsed env = Some cf" "wayland_display env = Some d" "d \<noteq> []"
    "quit (app_run (on_activate (compositor env) (initial_state cf) (activate_time env)) evs)"
    "result (app_run (on_activate (compositor env) (initial_state cf) (activate_time env)) evs) = Deny"
  shows "helper_main env evs = Some (''DENY'' @ [LF], EXIT_FAILURE)"
  using assms by (simp add: helper_main_def Let_def)


lemma covers_run:
  assumes "lock_instance (session_lock st)" "\<not> quit st" "\<not> first_monitor st"
  shows "app_run st (map (\<lambda>(m, t). MonitorSignal m t) ms)
         = st\<lparr>surfaces := surfaces st @ map (\<lambda>(m, t). (m, Blank False ''window { background: #1a1a1a; }'')) ms\<rparr>"
  using assms
proof (induction ms arbitrary: st)
  case Nil
  then show ?case by simp
next
  case (Cons a ms)
  obtain m t where a: "a = (m, t)" by (cases a)
  let ?st1 = "st\<lparr>surfaces := surfaces st @ [(m, Blank False ''window { background: #1a1a1a; }'')]\<rparr>"
  have s: "app_step st (MonitorSignal m t) = ?st1"
    using Cons.prems by (simp add: on_monitor_signal_def monitor_callback_def)
  have "app_run ?st1 (map (\<lambda>(m, t). MonitorSignal m t) ms)
        = ?st1\<lparr>surfaces := surfaces ?st1 @ map (\<lambda>(m, t). (m, Blank False ''window { background: #1a1a1a; }'')) ms\<rparr>"
    using Cons.prems by (intro Cons.IH) simp_all
  with s Cons.prems(2) a show ?case by simp
qed

lemma monitors_run:
  assumes "lock_instance (session_lock st)" "\<not> quit st" "first_monitor st" "surfaces st = []"
  shows "surfaces (app_run st (map (\<lambda>(m, t). MonitorSignal m t) ms))
           = (case ms of [] \<Rightarrow> []
              | (m, t) # rest \<Rightarrow> (m, Dialog) # map (\<lambda>(m, t). (m, Blank False ''window { background: #1a1a1a; }'')) rest)
         \<and> dialog (app_run st (map (\<lambda>(m, t). MonitorSignal m t) ms))
           = (case ms of [] \<Rightarrow> dialog st
              | (m, t) # rest \<Rightarrow> Some (confirm_window_new (app_params (config st)) True t))"
proof (cases ms)
  case Nil
  then show ?thesis using assms by simp
next
  case (Cons a rest)
  obtain m t where a: "a = (m, t)" by (cases a)
  let ?st1 = "st\<lparr>first_monitor := False,
                dialog := Some (confirm_window_new (app_params (config st)) True t),
                surfaces := [(m, Dialog)]\<rparr>"
  have s: "app_step st (MonitorSignal m t) = ?st1"
    using assms by (simp add: on_monitor_signal_def monitor_callback_def)
  have "app_run ?st1 (map (\<lambda>(m, t). MonitorSignal m t) rest)
        = ?st1\<lparr>surfaces := surfaces ?st1 @ map (\<lambda>(m, t). (m, Blank False ''window { background: #1a1a1a; }'')) rest\<rparr>"
    using assms by (intro covers_run) simp_all
  with s assms(2) a Cons show ?thesis by simp
qed

lemma surfaces_on_result: "surfaces (on_result st r) = surfaces st \<and> first_monitor (on_result st r) = first_monitor st"
  by (simp add: on_result_def Let_def)

lemma surfaces_foldl: "surfaces (foldl on_result st rs) = surfaces st \<and> first_monitor (foldl on_result st rs) = first_monitor st"
  by (induction rs arbitrary: st) (simp_all add: surfaces_on_result)

lemma prompt_count_step:
  assumes "first_monitor st \<longrightarrow> filter (\<lambda>s. snd s = Dialog) (surfaces st) = []"
      "length (filter (\<lambda>s. snd s = Dialog) (surfaces st)) \<le> 1"
  shows "(first_monitor (app_step st e) \<longrightarrow> filter (\<lambda>s. snd s = Dialog) (surfaces (app_step st e)) = [])
     \<and> length (filter (\<lambda>s. snd s = Dialog) (surfaces (app_step st e))) \<le> 1"
  using assms
  by (cases e)
     (auto simp add: on_locked_signal_def on_failed_signal_def on_unlocked_signal_def
        on_monitor_signal_def monitor_callback_def surfaces_foldl split: option.splits)

lemma prompt_count_run:
  assumes "first_monitor st \<longrightarrow> filter (\<lambda>s. snd s = Dialog) (surfaces st) = []"
      "length (filter (\<lambda>s. snd s = Dialog) (surfaces st)) \<le> 1"
  shows "length (filter (\<lambda>s. snd s = Dialog) (surfaces (app_run st evs))) \<le> 1"
  using assms
proof (induction evs arbitrary: st)
  case Nil
  then show ?case by simp
next
  case (Cons e evs)
  show ?case
  proof (cases "quit st")
    case True
    then show ?thesis using Cons.prems by simp
  next
    case False
    from prompt_count_step [OF Cons.prems, of e]
    have "length (filter (\<lambda>s. snd s = Dialog) (surfaces (app_run (app_step st e) evs))) \<le> 1"
      by (intro Cons.IH) simp_all
    with False show ?thesis by simp
  qed
qed

lemma activate_surfaces:
  "surfaces (on_activate c (initial_state cf) t0) = []"
  by (simp add: on_activate_def on_activate_with_lock_def on_activate_without_lock_def
        initial_state_def Let_def split: prod.splits)


lemma activate_connects:
  "use_session_lock cf \<Longrightarrow> is_supported c \<Longrightarrow> instance_new_ok c \<Longrightarrow>
   lock_instance (session_lock (on_activate c (initial_state cf) t0))"
  by (simp add: on_activate_def on_activate_with_lock_def lock_def cleanup_def
        initial_state_def SessionLock_new_def Let_def)

lemma app_on_result: "app (on_result st r) = app st"
  by (simp add: on_result_def Let_def)

lemma app_foldl: "app (foldl on_result st rs) = app st"
  by (induction rs arbitrary: st) (simp_all add: app_on_result)

lemma app_step_keeps: "app (app_step st e) = app st"
  by (cases e)
     (simp_all add: on_locked_signal_def on_failed_signal_def on_unlocked_signal_def
        on_monitor_signal_def monitor_callback_def app_foldl split: option.splits)

lemma app_run_keeps: "app (app_run st evs) = app st"
  by (induction evs arbitrary: st) (simp_all add: app_step_keeps)

lemma app_on_activate: "app (on_activate c (initial_state cf) t0)"
  by (simp add: on_activate_def on_activate_with_lock_def on_activate_without_lock_def
        initial_state_def Let_def split: prod.splits)

section \<open>Properties of the PAM module\<close>

lemma c_str_cut:
  "c_str ((got @ [NUL])[length (takeWhile (\<lambda>c. c \<noteq> NUL \<and> c \<noteq> LF \<and> c \<noteq> CR) got) := NUL])
   = takeWhile (\<lambda>c. c \<noteq> NUL \<and> c \<noteq> LF \<and> c \<noteq> CR) got"
  by (induction got) (simp_all add: c_str_def)

lemma strcspn_line:
  "strcspn (got @ [NUL]) [LF, CR]
   = length (takeWhile (\<lambda>c. c \<noteq> NUL \<and> c \<noteq> LF \<and> c \<noteq> CR) got)"
  by (induction got) (simp_all add: strcspn_def c_str_def)

lemma c_str_ALLOW: "c_str ''ALLOW'' = ''ALLOW''"
  by (simp add: c_str_def NUL_def)

lemma result_line:
  "c_str ((take 15 bytes @ [NUL])[strcspn (take 15 bytes @ [NUL]) [LF, CR] := NUL]) = first_line bytes"
  by (simp add: strcspn_line c_str_cut first_line_def)

lemma parent_code:
  "fst (run_helper_parent cfg sel rd) =
     (if 0 < sel \<and> (case rd of None \<Rightarrow> False | Some bytes \<Rightarrow> first_line bytes = ''ALLOW'')
      then PAM_SUCCESS else PAM_AUTH_ERR)"
proof (cases rd)
  case None
  then show ?thesis by (simp add: run_helper_parent_def Let_def)
next
  case (Some bytes)
  have e: "bytes = [] \<Longrightarrow> first_line bytes \<noteq> ''ALLOW''" by (simp add: first_line_def)
  show ?thesis using Some e
    by (auto simp add: run_helper_parent_def Let_def strcmp_eq_def result_line c_str_ALLOW)
qed

lemma parent_calls_data:
  "0 < sel \<Longrightarrow>
   take 5 (snd (run_helper_parent cfg sel rd))
     = [P_close_write, P_select (c_int (cfg_timeout cfg + 5)), P_read 15, P_close_read, P_waitpid]"
  by (simp add: run_helper_parent_def Let_def split: option.splits)

lemma parent_timeout:
  "sel \<le> 0 \<Longrightarrow>
   run_helper_parent cfg sel rd
     = (PAM_AUTH_ERR, [P_close_write, P_select (c_int (cfg_timeout cfg + 5)), P_kill_SIGKILL, P_waitpid,
                       P_close_read] @ log_if cfg ''helper timeout'')"
  by (simp add: run_helper_parent_def Let_def)

lemma identity_calls_prefix:
  "identity_calls (run_helper_child sys user args)
   = take (length (identity_calls (run_helper_child sys user args))) (expected_identity_calls sys user)"
  by (simp add: run_helper_child_def identity_calls_def expected_identity_calls_def Let_def
        split: option.splits)

lemma exec_after_full_drop:
  "execv_calls (run_helper_child sys user args) \<noteq> [] \<Longrightarrow>
   identity_calls (run_helper_child sys user args) = expected_identity_calls sys user
   \<and> (getpwuid sys (fst (target_ids sys user)) = None \<or> initgroups_ok sys)
   \<and> setgid_ok sys \<and> setuid_ok sys"
  by (simp add: run_helper_child_def identity_calls_def execv_calls_def
        expected_identity_calls_def Let_def split: option.splits if_splits)

lemma drop_failure:
  "(getpwuid sys (fst (target_ids sys user)) \<noteq> None \<and> \<not> initgroups_ok sys)
     \<or> \<not> setgid_ok sys \<or> \<not> setuid_ok sys \<Longrightarrow>
   last (run_helper_child sys user args) = C_exit 1
   \<and> execv_calls (run_helper_child sys user args) = []
   \<and> child_writes (run_helper_child sys user args) = []
   \<and> channel_writes (run_helper_child sys user args) helper_out = []
   \<and> channel_content (run_helper_child sys user args) helper_out = []"
  by (auto simp add: run_helper_child_def execv_calls_def channel_content_def channel_writes_def
        child_writes_def exec_succeeded_def Let_def split: option.splits)

text \<open>The child ends at the call that fails: that call is followed by \<open>_exit(1)\<close> only.\<close>

lemma initgroups_failure_trace:
  "getpwuid sys (fst (target_ids sys user)) = Some p \<Longrightarrow> \<not> initgroups_ok sys \<Longrightarrow>
   run_helper_child sys user args
     = [C_close_read, C_setenv ''HOME'' (pw_dir p), C_setenv ''USER'' (pw_name p),
        C_setenv ''LOGNAME'' (pw_name p), C_initgroups (pw_name p) (pw_gid p), C_exit 1]"
  by (simp add: run_helper_child_def Let_def)

lemma setgid_failure_trace:
  "getpwuid sys (fst (target_ids sys user)) = None \<or> initgroups_ok sys \<Longrightarrow> \<not> setgid_ok sys \<Longrightarrow>
   identity_calls (run_helper_child sys user args)
     = butlast (expected_identity_calls sys user)
   \<and> drop (length (run_helper_child sys user args) - 2) (run_helper_child sys user args)
     = [last (butlast (expected_identity_calls sys user)), C_exit 1]"
  by (auto simp add: run_helper_child_def identity_calls_def expected_identity_calls_def Let_def
        split: option.splits)

lemma setuid_failure_trace:
  "getpwuid sys (fst (target_ids sys user)) = None \<or> initgroups_ok sys \<Longrightarrow> setgid_ok sys \<Longrightarrow>
   \<not> setuid_ok sys \<Longrightarrow>
   identity_calls (run_helper_child sys user args) = expected_identity_calls sys user
   \<and> drop (length (run_helper_child sys user args) - 2) (run_helper_child sys user args)
     = [C_setuid (fst (target_ids sys user)), C_exit 1]"
  by (auto simp add: run_helper_child_def identity_calls_def expected_identity_calls_def Let_def
        split: option.splits)

lemma exec_failure_trace:
  "(getpwuid sys (fst (target_ids sys user)) = None \<or> initgroups_ok sys) \<Longrightarrow> setgid_ok sys \<Longrightarrow>
   setuid_ok sys \<Longrightarrow> dup2_ok sys \<Longrightarrow> \<not> execv_ok sys \<Longrightarrow>
   drop (length (run_helper_child sys user args) - 3) (run_helper_child sys user args)
     = [C_execv args, C_write_stdout (''DENY'' @ [LF]), C_exit 1]
   \<and> child_writes (run_helper_child sys user args) = ''DENY'' @ [LF]
   \<and> channel_content (run_helper_child sys user args) helper_out = ''DENY'' @ [LF]"
  by (auto simp add: run_helper_child_def channel_content_def channel_writes_def child_writes_def
        exec_succeeded_def Let_def split: option.splits)

lemma exec_failure_writes:
  "(getpwuid sys (fst (target_ids sys user)) = None \<or> initgroups_ok sys) \<Longrightarrow> setgid_ok sys \<Longrightarrow>
   setuid_ok sys \<Longrightarrow> dup2_ok sys \<Longrightarrow> \<not> execv_ok sys \<Longrightarrow>
   channel_writes (run_helper_child sys user args) helper_out = [''DENY'' @ [LF]]"
  by (auto simp add: run_helper_child_def channel_writes_def exec_succeeded_def Let_def
        split: option.splits)

lemma run_helper_code:
  "pipe_ok psys \<Longrightarrow> fork_ok psys \<Longrightarrow>
   run_helper c psys csys user inp helper_out
   = (fst (run_helper_parent c (select_ret psys)
             (if read_ok psys
              then Some (arrived (chunks_arrived psys)
                           (channel_writes (run_helper_child csys user
                              (helper_args (helper_path inp) c (formatted_message inp)
                                 (formatted_secondary inp) (process_exe_path inp))) helper_out))
              else None)),
      [P_pipe, P_fork] @ snd (run_helper_parent c (select_ret psys)
             (if read_ok psys
              then Some (arrived (chunks_arrived psys)
                           (channel_writes (run_helper_child csys user
                              (helper_args (helper_path inp) c (formatted_message inp)
                                 (formatted_secondary inp) (process_exe_path inp))) helper_out))
              else None)),
      run_helper_child csys user
                           (helper_args (helper_path inp) c (formatted_message inp)
                              (formatted_secondary inp) (process_exe_path inp)))"
  by (simp add: run_helper_def Let_def split: prod.splits)

lemma drop_failure_auth_err:
  "(getpwuid sys (fst (target_ids sys user)) \<noteq> None \<and> \<not> initgroups_ok sys)
     \<or> \<not> setgid_ok sys \<or> \<not> setuid_ok sys \<Longrightarrow> pipe_ok psys \<Longrightarrow> fork_ok psys \<Longrightarrow>
   fst (run_helper c psys sys user inp helper_out) = PAM_AUTH_ERR"
  using drop_failure [of sys user _ helper_out]
  by (simp add: run_helper_code parent_code first_line_def arrived_def)

text \<open>
  Two evaluations: a number beyond the range of \<open>long\<close> in \<open>SUDO_UID\<close> becomes the uid
  4294967295, and a token that the helper writes in two parts, of which only the first
  has arrived when the parent reads, is not accepted.
\<close>

lemma atoi_out_of_range: "uid_of_int (atoi ''99999999999999999999'') = 4294967295"
  by (simp add: atoi_def signed_digits_def c_int_def c_long_saturate_def isspace_def isdigit_def
        uid_of_int_def)

lemma split_token_rejected:
  "fst (run_helper default_cfg psys_data sys_alice ''alice'' spawn_example [''AL'', ''LOW'' @ [LF]])
     = PAM_AUTH_ERR
   \<and> fst (run_helper default_cfg (psys_data\<lparr>chunks_arrived := 2\<rparr>) sys_alice ''alice'' spawn_example
            [''AL'', ''LOW'' @ [LF]])
     = PAM_SUCCESS"
  by (simp add: run_helper_code parent_code arrived_def channel_writes_def exec_succeeded_def
        run_helper_child_def first_line_def psys_data_def sys_alice_def alice_def target_ids_def
        atoi_def signed_digits_def c_int_def c_long_saturate_def isspace_def isdigit_def
        uid_of_int_def NUL_def LF_def CR_def Let_def)

lemma c_int_in_range:
  "- (2 ^ 31) \<le> i \<Longrightarrow> i < 2 ^ 31 \<Longrightarrow> c_int i = i"
  by (simp add: c_int_def)

lemma c_int_range: "- (2 ^ 31) \<le> c_int i \<and> c_int i < 2 ^ 31"
  by (simp add: c_int_def)

section \<open>The claims about the dialog\<close>

subsection \<open>The minimum display time\<close>

text \<open>
  Claim C3, as amended. For a window with minimum display time M: an accept input
  whose elapsed time is below M leaves the window unchanged and calls no callback, and
  a run of inputs in which every accept input is that early never produces \<open>Allow\<close>.
  An accept input is also a no-op while \<open>allow_enabled\<close> is false, whatever the elapsed
  time. On an undecided window with \<open>allow_enabled\<close> set, an accept input at an elapsed
  time of at least M produces \<open>Allow\<close>, and \<open>Allow\<close> is the only result the callback
  ever receives, whatever inputs follow. As for the flag: a new window has it set
  exactly when its timeout is not positive; while it is clear, a tick of the live
  timer sets it exactly when the elapsed whole seconds are below the timeout and the
  elapsed time is at least M; a tick of a timer that is not installed does nothing;
  no other input changes the flag; and once set it stays set.
\<close>

theorem accept_min_display_time:
  "(elapsed_ms w now < min_display_time (params w) \<longrightarrow> on_allow_clicked w now = (w, []))
   \<and> ((\<forall>t. AllowClicked t \<in> set evs \<longrightarrow> elapsed_ms w1 t < min_display_time (params w1))
        \<longrightarrow> Allow \<notin> set (snd (run_events w1 evs)))
   \<and> (\<not> allow_enabled w2 \<longrightarrow> on_allow_clicked w2 now2 = (w2, []))
   \<and> (\<not> result_sent w3 \<and> allow_enabled w3 \<and> has_on_result w3
        \<and> min_display_time (params w3) \<le> elapsed_ms w3 now3
        \<longrightarrow> snd (run_events w3 (AllowClicked now3 # rest)) = [Allow])
   \<and> allow_enabled (confirm_window_new p cb t0) = (timeout p \<le> 0)
   \<and> (timer_source w4 \<and> \<not> allow_enabled w4 \<longrightarrow>
        allow_enabled (fst (dispatch w4 (TimerTick now4)))
          = (elapsed_ms w4 now4 sdiv 1000 < timeout (params w4)
             \<and> min_display_time (params w4) \<le> elapsed_ms w4 now4))
   \<and> (\<not> timer_source w5 \<longrightarrow> dispatch w5 (TimerTick now5) = (w5, []))
   \<and> ((\<forall>t. e6 \<noteq> TimerTick t) \<longrightarrow> allow_enabled (fst (dispatch w6 e6)) = allow_enabled w6)
   \<and> (allow_enabled w7 \<longrightarrow> allow_enabled (fst (run_events w7 evs7)))"
proof (intro conjI impI)
  assume "elapsed_ms w now < min_display_time (params w)"
  then show "on_allow_clicked w now = (w, [])" by (simp add: on_allow_clicked_def)
next
  assume "\<forall>t. AllowClicked t \<in> set evs \<longrightarrow> elapsed_ms w1 t < min_display_time (params w1)"
  then show "Allow \<notin> set (snd (run_events w1 evs))" by (rule run_events_no_early_Allow)
next
  assume "\<not> allow_enabled w2"
  then show "on_allow_clicked w2 now2 = (w2, [])" by (simp add: on_allow_clicked_def)
next
  assume "\<not> result_sent w3 \<and> allow_enabled w3 \<and> has_on_result w3
        \<and> min_display_time (params w3) \<le> elapsed_ms w3 now3"
  then show "snd (run_events w3 (AllowClicked now3 # rest)) = [Allow]"
    using accept_once by blast
next
  show "allow_enabled (confirm_window_new p cb t0) = (timeout p \<le> 0)"
    by (auto simp add: confirm_window_new_def)
next
  assume "timer_source w4 \<and> \<not> allow_enabled w4"
  then show "allow_enabled (fst (dispatch w4 (TimerTick now4)))
          = (elapsed_ms w4 now4 sdiv 1000 < timeout (params w4)
             \<and> min_display_time (params w4) \<le> elapsed_ms w4 now4)"
    by (auto simp add: on_timer_tick_def send_result_def Let_def)
next
  assume "\<not> timer_source w5"
  then show "dispatch w5 (TimerTick now5) = (w5, [])" by simp
next
  assume "\<forall>t. e6 \<noteq> TimerTick t"
  then show "allow_enabled (fst (dispatch w6 e6)) = allow_enabled w6"
    by (cases e6)
       (simp_all add: on_allow_clicked_def on_deny_clicked_def on_key_pressed_def
          on_close_request_def send_result_def)
next
  assume "allow_enabled w7"
  then show "allow_enabled (fst (run_events w7 evs7))" by (rule allow_enabled_run)
qed


text \<open>
  The theorem at a window created at time 0 with a timeout of 30 s and M = 550 ms:
  a click at 100 ms, a run with that click only, a click at 700 ms before any tick,
  ticks at 500 ms, 600 ms and 30 s, and a click at 700 ms after the tick at 600 ms,
  followed by two more inputs; and at a window without timeout.
\<close>

theorem accept_min_display_time_witness:
  "elapsed_ms (confirm_window_new params_30s_550ms True 0) 100000
     < min_display_time (params (confirm_window_new params_30s_550ms True 0))
   \<and> on_allow_clicked (confirm_window_new params_30s_550ms True 0) 100000
       = (confirm_window_new params_30s_550ms True 0, [])
   \<and> Allow \<notin> set (snd (run_events (confirm_window_new params_30s_550ms True 0)
                          [AllowClicked 100000, TimerTick 200000]))
   \<and> \<not> allow_enabled (confirm_window_new params_30s_550ms True 0)
   \<and> timer_source (confirm_window_new params_30s_550ms True 0)
   \<and> on_allow_clicked (confirm_window_new params_30s_550ms True 0) 700000
       = (confirm_window_new params_30s_550ms True 0, [])
   \<and> allow_enabled (fst (dispatch (confirm_window_new params_30s_550ms True 0) (TimerTick 600000)))
   \<and> \<not> allow_enabled (fst (dispatch (confirm_window_new params_30s_550ms True 0) (TimerTick 500000)))
   \<and> \<not> allow_enabled (fst (dispatch (confirm_window_new params_30s_550ms True 0) (TimerTick 30000000)))
   \<and> snd (run_events (fst (dispatch (confirm_window_new params_30s_550ms True 0) (TimerTick 600000)))
            [AllowClicked 700000, AllowClicked 800000, DenyClicked]) = [Allow]
   \<and> allow_enabled (confirm_window_new params_no_timeout True 0)
   \<and> \<not> timer_source (confirm_window_new params_no_timeout True 0)
   \<and> dispatch (confirm_window_new params_no_timeout True 0) (TimerTick 600000)
       = (confirm_window_new params_no_timeout True 0, [])
   \<and> \<not> allow_enabled (fst (dispatch (confirm_window_new params_30s_550ms True 0) (AllowClicked 700000)))
   \<and> allow_enabled (fst (run_events (confirm_window_new params_no_timeout True 0)
                            [AllowClicked 100000, DenyClicked]))"
  using accept_min_display_time
    [of "confirm_window_new params_30s_550ms True 0" 100000
        "[AllowClicked 100000, TimerTick 200000]"
        "confirm_window_new params_30s_550ms True 0"
        "confirm_window_new params_30s_550ms True 0" 700000
        "fst (dispatch (confirm_window_new params_30s_550ms True 0) (TimerTick 600000))"
        700000 "[AllowClicked 800000, DenyClicked]"
        params_no_timeout True 0
        "confirm_window_new params_30s_550ms True 0" 600000
        "confirm_window_new params_no_timeout True 0" 600000
        "AllowClicked 700000" "confirm_window_new params_30s_550ms True 0"
        "confirm_window_new params_no_timeout True 0" "[AllowClicked 100000, DenyClicked]"]
    accept_min_display_time [where ?w4.0 = "confirm_window_new params_30s_550ms True 0" and ?now4.0 = 500000]
    accept_min_display_time [where ?w4.0 = "confirm_window_new params_30s_550ms True 0" and ?now4.0 = 30000000]
  by (simp add: params_30s_550ms_def params_no_timeout_def confirm_window_new_def elapsed_ms_def
        on_timer_tick_def on_allow_clicked_def send_result_def signed_divide_int_def Let_def)

text \<open>
  The claim as written fails here: after the tick at 500 ms the window is undecided,
  a click at 560 ms has an elapsed time above M = 550 ms, and yet nothing is passed to
  the callback, because \<open>allow_enabled\<close> is still false.
\<close>

theorem accept_min_display_time_counterexample:
  "\<not> result_sent (fst (run_events (confirm_window_new params_30s_550ms True 0) [TimerTick 500000]))
   \<and> min_display_time (params (fst (run_events (confirm_window_new params_30s_550ms True 0)
                                         [TimerTick 500000])))
       \<le> elapsed_ms (fst (run_events (confirm_window_new params_30s_550ms True 0)
                              [TimerTick 500000])) 560000
   \<and> snd (run_events (confirm_window_new params_30s_550ms True 0)
            [TimerTick 500000, AllowClicked 560000]) = []"
  by (simp add: params_30s_550ms_def confirm_window_new_def elapsed_ms_def
        on_timer_tick_def on_allow_clicked_def send_result_def signed_divide_int_def Let_def)

subsection \<open>A timeout of zero\<close>

text \<open>
  Claim C5, as amended. A window created with \<open>timeout = 0\<close> has no timer, so no run
  of inputs produces \<open>Timeout\<close>, and its \<open>allow_enabled\<close> is true from creation. The
  accept handler still compares the elapsed time with the minimum display time: on
  that window (with a callback) an accept input below the minimum display time is a
  no-op, at or above it the result is \<open>Allow\<close>. In general, on an undecided window an
  accept input is a no-op exactly when \<open>allow_enabled\<close> is false or the elapsed time is
  below the minimum display time.
\<close>

theorem timeout_zero_accept:
  "(timeout p = 0 \<longrightarrow>
      allow_enabled (confirm_window_new p cb t0)
      \<and> \<not> timer_source (confirm_window_new p cb t0)
      \<and> \<not> result_sent (confirm_window_new p cb t0)
      \<and> Timeout \<notin> set (snd (run_events (confirm_window_new p cb t0) evs))
      \<and> on_allow_clicked (confirm_window_new p True t0) now =
          (if (now - t0) sdiv 1000 < min_display_time p
           then (confirm_window_new p True t0, [])
           else ((confirm_window_new p True t0)\<lparr>result_sent := True, close_called := True\<rparr>,
                 [Allow])))
   \<and> (\<not> result_sent w \<longrightarrow>
        (on_allow_clicked w now1 = (w, []))
        = (\<not> allow_enabled w \<or> elapsed_ms w now1 < min_display_time (params w)))"
proof (intro conjI impI)
  assume z: "timeout p = 0"
  then show "allow_enabled (confirm_window_new p cb t0)"
    and "\<not> timer_source (confirm_window_new p cb t0)"
    and "\<not> result_sent (confirm_window_new p cb t0)"
    by (simp_all add: confirm_window_new_def)
  then show "Timeout \<notin> set (snd (run_events (confirm_window_new p cb t0) evs))"
    using timer_off_run by blast
  from z show "on_allow_clicked (confirm_window_new p True t0) now =
          (if (now - t0) sdiv 1000 < min_display_time p
           then (confirm_window_new p True t0, [])
           else ((confirm_window_new p True t0)\<lparr>result_sent := True, close_called := True\<rparr>,
                 [Allow]))"
    by (simp add: confirm_window_new_def on_allow_clicked_def elapsed_ms_def send_result_def)
next
  assume "\<not> result_sent w"
  then show "(on_allow_clicked w now1 = (w, []))
        = (\<not> allow_enabled w \<or> elapsed_ms w now1 < min_display_time (params w))"
    by (rule accept_noop_iff)
qed

theorem timeout_zero_accept_witness:
  "timeout params_no_timeout = 0
   \<and> allow_enabled (confirm_window_new params_no_timeout True 0)
   \<and> \<not> timer_source (confirm_window_new params_no_timeout True 0)
   \<and> \<not> result_sent (confirm_window_new params_no_timeout True 0)
   \<and> Timeout \<notin> set (snd (run_events (confirm_window_new params_no_timeout True 0)
                            [TimerTick 99000000, AllowClicked 100000]))
   \<and> on_allow_clicked (confirm_window_new params_no_timeout True 0) 600000
       = ((confirm_window_new params_no_timeout True 0)\<lparr>result_sent := True, close_called := True\<rparr>,
          [Allow])
   \<and> on_allow_clicked (confirm_window_new params_no_timeout True 0) 100000
       = (confirm_window_new params_no_timeout True 0, [])
   \<and> elapsed_ms (confirm_window_new params_no_timeout True 0) 100000
       < min_display_time (params (confirm_window_new params_no_timeout True 0))"
  using timeout_zero_accept
    [of params_no_timeout True 0 "[TimerTick 99000000, AllowClicked 100000]" 600000
        "confirm_window_new params_no_timeout True 0" 100000]
  by (simp add: params_no_timeout_def confirm_window_new_def elapsed_ms_def
        signed_divide_int_def)

text \<open>
  The claim as written fails here: with \<open>timeout = 0\<close> and a minimum display time of
  500 ms the window is undecided and \<open>allow_enabled\<close> is true, and an accept input at
  100 ms is a no-op that produces no \<open>Allow\<close>.
\<close>

theorem timeout_zero_accept_counterexample:
  "timeout params_no_timeout = 0
   \<and> allow_enabled (confirm_window_new params_no_timeout True 0)
   \<and> \<not> result_sent (confirm_window_new params_no_timeout True 0)
   \<and> run_events (confirm_window_new params_no_timeout True 0) [AllowClicked 100000]
       = (confirm_window_new params_no_timeout True 0, [])"
  by (simp add: params_no_timeout_def confirm_window_new_def elapsed_ms_def
        on_allow_clicked_def signed_divide_int_def)


section \<open>The claims about the PAM module\<close>

subsection \<open>The order of the privilege drop\<close>

text \<open>
  Claim C1 requires the child to apply the supplementary group list, then the group
  identity, then the user identity, and to end at once when one of the three fails.
  The code does not do so on the following input: the child is started by uid 0 with
  \<open>SUDO_UID\<close> 4242, the user database has no entry for uid 4242, and every call
  succeeds. The child then calls \<open>setgid\<close> with the group of its parent and \<open>setuid\<close>
  with 4242, never calls \<open>initgroups\<close>, and starts the helper. For a uid that the user
  database knows, the same code calls \<open>initgroups\<close> first.
\<close>

theorem privilege_drop_without_initgroups:
  "getpwuid sys_unknown_uid (fst (target_ids sys_unknown_uid ''alice'')) = None
   \<and> run_helper_child sys_unknown_uid ''alice'' [''helper'']
       = [C_close_read, C_setgid 0, C_setuid 4242, C_dup2_stdout, C_close_write,
          C_execv [''helper'']]
   \<and> identity_calls (run_helper_child sys_unknown_uid ''alice'' [''helper''])
       = [C_setgid 0, C_setuid 4242]
   \<and> exec_succeeded (run_helper_child sys_unknown_uid ''alice'' [''helper''])
   \<and> identity_calls (run_helper_child sys_alice ''alice'' [''helper''])
       = [C_initgroups ''alice'' 1000, C_setgid 1000, C_setuid 1000]"
  by (simp add: run_helper_child_def identity_calls_def exec_succeeded_def target_ids_def
        sys_unknown_uid_def sys_alice_def alice_def atoi_def signed_digits_def c_int_def
        c_long_saturate_def isspace_def isdigit_def uid_of_int_def Let_def)

subsection \<open>No display\<close>

text \<open>
  Claim C6. Take an attempt whose user name is known and for whose target user
  \<open>has_display\<close> finds no Wayland display. Then \<open>pam_sm_authenticate\<close> creates no pipe
  and no child. If moreover the module is enabled for the service (otherwise the
  attempt has ended with \<open>PAM_IGNORE\<close> before the display is looked for), the return
  value depends on \<open>headless_action\<close> only: \<open>allow\<close> gives \<open>PAM_SUCCESS\<close>, \<open>deny\<close> gives
  \<open>PAM_AUTH_ERR\<close>, any other value gives \<open>PAM_IGNORE\<close>.
\<close>

theorem headless_policy:
  "pam_user sys = Some user
   \<and> fst (has_display (child_environ (child sys)) (run_user_dir sys) (auth_target_uid sys user)) = 0
   \<longrightarrow> snd (snd (pam_sm_authenticate sys)) = []
       \<and> P_pipe \<notin> set (fst (snd (pam_sm_authenticate sys)))
       \<and> P_fork \<notin> set (fst (snd (pam_sm_authenticate sys)))
       \<and> (enabled (loaded_cfg sys) \<noteq> 0 \<longrightarrow>
            fst (pam_sm_authenticate sys)
              = (if headless_action (loaded_cfg sys) = ''allow'' then PAM_SUCCESS
                 else if headless_action (loaded_cfg sys) = ''deny'' then PAM_AUTH_ERR
                 else PAM_IGNORE))"
  by (simp add: pam_sm_authenticate_def Let_def split: prod.splits)


text \<open>
  The theorem for a user whose runtime directory holds only \<open>bus\<close> and
  \<open>wayland-0.lock\<close>, under the three policies.
\<close>

lemma headless_no_display:
  "fst (has_display (child_environ (child (auth_headless c))) (run_user_dir (auth_headless c))
          (auth_target_uid (auth_headless c) ''alice'')) = 0"
  by (simp add: auth_headless_def auth_target_uid_def sys_alice_def alice_def has_display_def
        find_wayland_display_def strncmp_eq_def)

theorem headless_policy_witness:
  "pam_user (auth_headless (default_cfg\<lparr>headless_action := ''allow''\<rparr>)) = Some ''alice''
   \<and> fst (has_display (child_environ (child (auth_headless (default_cfg\<lparr>headless_action := ''allow''\<rparr>))))
            (run_user_dir (auth_headless (default_cfg\<lparr>headless_action := ''allow''\<rparr>)))
            (auth_target_uid (auth_headless (default_cfg\<lparr>headless_action := ''allow''\<rparr>)) ''alice'')) = 0
   \<and> enabled (loaded_cfg (auth_headless (default_cfg\<lparr>headless_action := ''allow''\<rparr>))) \<noteq> 0
   \<and> pam_sm_authenticate (auth_headless (default_cfg\<lparr>headless_action := ''allow''\<rparr>))
       = (PAM_SUCCESS, [P_syslog ''no display, allowing''], [])
   \<and> fst (pam_sm_authenticate (auth_headless (default_cfg\<lparr>headless_action := ''deny''\<rparr>)))
       = PAM_AUTH_ERR
   \<and> fst (pam_sm_authenticate (auth_headless default_cfg)) = PAM_IGNORE"
  using headless_policy [of "auth_headless (default_cfg\<lparr>headless_action := ''allow''\<rparr>)" "''alice''"]
    headless_policy [of "auth_headless (default_cfg\<lparr>headless_action := ''deny''\<rparr>)" "''alice''"]
    headless_policy [of "auth_headless default_cfg" "''alice''"]
  by (simp add: headless_no_display)
     (simp add: auth_headless_def default_cfg_def pam_sm_authenticate_def auth_target_uid_def
        sys_alice_def alice_def has_display_def find_wayland_display_def strncmp_eq_def)



subsection \<open>Reading the decision\<close>

text \<open>
  Claim C7, as amended. The parent reads once, at most 15 bytes, and compares one
  line: the bytes read before the first NUL, line feed or carriage return. It returns
  \<open>PAM_SUCCESS\<close> if and only if \<open>select\<close> reported data, \<open>read\<close> succeeded and that line is
  exactly \<open>ALLOW\<close>; in every other case it returns \<open>PAM_AUTH_ERR\<close>, in particular for the
  tokens \<open>DENY\<close> and \<open>TIMEOUT\<close>, for a pipe closed without data and for a failed \<open>read\<close>.
  Whenever \<open>select\<close> reported data, the calls of the parent begin with \<open>select\<close>, \<open>read\<close>,
  closing the pipe and \<open>waitpid\<close>: the child is reaped after the read.
\<close>

theorem decision_token_parse:
  "(fst (run_helper_parent c sel rd) = PAM_SUCCESS)
     = (0 < sel \<and> (case rd of None \<Rightarrow> False | Some bytes \<Rightarrow> first_line bytes = ''ALLOW''))
   \<and> (fst (run_helper_parent c sel rd) \<noteq> PAM_SUCCESS
        \<longrightarrow> fst (run_helper_parent c sel rd) = PAM_AUTH_ERR)
   \<and> fst (run_helper_parent c sel (Some (''DENY'' @ [LF]))) = PAM_AUTH_ERR
   \<and> fst (run_helper_parent c sel (Some (''TIMEOUT'' @ [LF]))) = PAM_AUTH_ERR
   \<and> fst (run_helper_parent c sel (Some [])) = PAM_AUTH_ERR
   \<and> fst (run_helper_parent c sel None) = PAM_AUTH_ERR
   \<and> (0 < sel \<longrightarrow>
        take 5 (snd (run_helper_parent c sel rd))
          = [P_close_write, P_select (c_int (cfg_timeout c + 5)), P_read 15, P_close_read, P_waitpid])"
proof (intro conjI impI)
  show "(fst (run_helper_parent c sel rd) = PAM_SUCCESS)
     = (0 < sel \<and> (case rd of None \<Rightarrow> False | Some bytes \<Rightarrow> first_line bytes = ''ALLOW''))"
    by (simp add: parent_code)
  show "fst (run_helper_parent c sel (Some (''DENY'' @ [LF]))) = PAM_AUTH_ERR"
    and "fst (run_helper_parent c sel (Some (''TIMEOUT'' @ [LF]))) = PAM_AUTH_ERR"
    and "fst (run_helper_parent c sel (Some [])) = PAM_AUTH_ERR"
    and "fst (run_helper_parent c sel None) = PAM_AUTH_ERR"
    by (simp_all add: parent_code first_line_def NUL_def LF_def CR_def)
next
  assume "fst (run_helper_parent c sel rd) \<noteq> PAM_SUCCESS"
  then show "fst (run_helper_parent c sel rd) = PAM_AUTH_ERR"
    by (simp add: parent_code split: if_splits)
next
  assume "0 < sel"
  then show "take 5 (snd (run_helper_parent c sel rd))
          = [P_close_write, P_select (c_int (cfg_timeout c + 5)), P_read 15, P_close_read, P_waitpid]"
    by (rule parent_calls_data)
qed


text \<open>The theorem at the token \<open>ALLOW\<close> and at the malformed content \<open>allow\<close>.\<close>

theorem decision_token_parse_witness:
  "(0::int) < 1
   \<and> first_line (''ALLOW'' @ [LF]) = ''ALLOW''
   \<and> run_helper_parent default_cfg 1 (Some (''ALLOW'' @ [LF]))
       = (PAM_SUCCESS, [P_close_write, P_select 35, P_read 15, P_close_read, P_waitpid,
                        P_syslog ''ALLOW''])
   \<and> fst (run_helper_parent default_cfg 1 (Some ''allow'')) \<noteq> PAM_SUCCESS
   \<and> fst (run_helper_parent default_cfg 1 (Some ''allow'')) = PAM_AUTH_ERR"
  using decision_token_parse [of default_cfg 1 "Some (''ALLOW'' @ [LF])"]
    decision_token_parse [of default_cfg 1 "Some ''allow''"]
  by (simp add: first_line_def NUL_def LF_def CR_def)
     (simp add: run_helper_parent_def default_cfg_def log_if_def strcspn_def c_str_def
        strcmp_eq_def c_int_def NUL_def LF_def CR_def Let_def)


text \<open>
  The claim as written fails here. The content \<open>ALLOW\<close>, NUL, \<open>X\<close>, line feed is
  malformed and its first newline-terminated line is not \<open>ALLOW\<close>, yet the parent
  returns \<open>PAM_SUCCESS\<close>, because the C string ends at the NUL. The same holds for
  \<open>ALLOW\<close>, carriage return, \<open>DENY\<close>, line feed, because a carriage return also ends
  the line that is compared.
\<close>

theorem decision_token_parse_counterexample:
  "newline_terminated_line (''ALLOW'' @ [NUL] @ ''X'' @ [LF]) = ''ALLOW'' @ [NUL] @ ''X''
   \<and> newline_terminated_line (''ALLOW'' @ [NUL] @ ''X'' @ [LF]) \<noteq> ''ALLOW''
   \<and> fst (run_helper_parent default_cfg 1 (Some (''ALLOW'' @ [NUL] @ ''X'' @ [LF]))) = PAM_SUCCESS
   \<and> newline_terminated_line (''ALLOW'' @ [CR] @ ''DENY'' @ [LF]) \<noteq> ''ALLOW''
   \<and> fst (run_helper_parent default_cfg 1 (Some (''ALLOW'' @ [CR] @ ''DENY'' @ [LF]))) = PAM_SUCCESS"
  by (simp add: parent_code first_line_def newline_terminated_line_def NUL_def LF_def CR_def)


subsection \<open>The deadline\<close>



subsection \<open>A failed \<open>execv\<close>\<close>

text \<open>
  Claim C10. If the identity changes and \<open>dup2\<close> succeed and \<open>execv\<close> fails, the last
  three calls of the child are the failed \<open>execv\<close>, the write of \<open>DENY\<close> and a line feed
  to the pipe, and \<open>_exit(1)\<close>; the pipe then holds exactly that token. \<open>run_helper\<close>
  returns \<open>PAM_AUTH_ERR\<close>, and when \<open>select\<close> reports data and \<open>read\<close> succeeds the parent
  has read the line \<open>DENY\<close> (it is what it logs) and reaped the child.
\<close>

theorem exec_failure_denies:
  "(getpwuid sys (fst (target_ids sys user)) = None \<or> initgroups_ok sys)
   \<and> setgid_ok sys \<and> setuid_ok sys \<and> dup2_ok sys \<and> \<not> execv_ok sys
   \<longrightarrow> drop (length (run_helper_child sys user args) - 3) (run_helper_child sys user args)
         = [C_execv args, C_write_stdout (''DENY'' @ [LF]), C_exit 1]
       \<and> child_writes (run_helper_child sys user args) = ''DENY'' @ [LF]
       \<and> channel_content (run_helper_child sys user args) helper_out = ''DENY'' @ [LF]
       \<and> (pipe_ok psys \<and> fork_ok psys \<longrightarrow>
            fst (run_helper c psys sys user inp helper_out) = PAM_AUTH_ERR)
       \<and> (pipe_ok psys \<and> fork_ok psys \<and> 0 < select_ret psys \<and> read_ok psys \<longrightarrow>
            fst (snd (run_helper c psys sys user inp helper_out))
              = [P_pipe, P_fork, P_close_write, P_select (c_int (cfg_timeout c + 5)), P_read 15,
                 P_close_read, P_waitpid] @ log_if c ''DENY'')"
proof (intro impI)
  assume a: "(getpwuid sys (fst (target_ids sys user)) = None \<or> initgroups_ok sys)
   \<and> setgid_ok sys \<and> setuid_ok sys \<and> dup2_ok sys \<and> \<not> execv_ok sys"
  then have t: "drop (length (run_helper_child sys user args) - 3) (run_helper_child sys user args)
     = [C_execv args, C_write_stdout (''DENY'' @ [LF]), C_exit 1]
   \<and> child_writes (run_helper_child sys user args) = ''DENY'' @ [LF]
   \<and> channel_content (run_helper_child sys user args) helper_out = ''DENY'' @ [LF]"
    using exec_failure_trace by blast
  let ?args = "helper_args (helper_path inp) c (formatted_message inp)
                              (formatted_secondary inp) (process_exe_path inp)"
  have ch: "channel_writes (run_helper_child sys user ?args) helper_out = [''DENY'' @ [LF]]"
    using a exec_failure_writes by blast
  have code: "pipe_ok psys \<and> fork_ok psys \<longrightarrow>
            fst (run_helper c psys sys user inp helper_out) = PAM_AUTH_ERR"
    by (simp add: run_helper_code parent_code ch arrived_def first_line_def NUL_def LF_def CR_def)
  have calls: "pipe_ok psys \<and> fork_ok psys \<and> 0 < select_ret psys \<and> read_ok psys \<longrightarrow>
            fst (snd (run_helper c psys sys user inp helper_out))
              = [P_pipe, P_fork, P_close_write, P_select (c_int (cfg_timeout c + 5)), P_read 15,
                 P_close_read, P_waitpid] @ log_if c ''DENY''"
    by (simp add: run_helper_code ch arrived_def run_helper_parent_def Let_def strcspn_def
          c_str_def NUL_def LF_def CR_def)
  from t code calls show "drop (length (run_helper_child sys user args) - 3) (run_helper_child sys user args)
         = [C_execv args, C_write_stdout (''DENY'' @ [LF]), C_exit 1]
       \<and> child_writes (run_helper_child sys user args) = ''DENY'' @ [LF]
       \<and> channel_content (run_helper_child sys user args) helper_out = ''DENY'' @ [LF]
       \<and> (pipe_ok psys \<and> fork_ok psys \<longrightarrow>
            fst (run_helper c psys sys user inp helper_out) = PAM_AUTH_ERR)
       \<and> (pipe_ok psys \<and> fork_ok psys \<and> 0 < select_ret psys \<and> read_ok psys \<longrightarrow>
            fst (snd (run_helper c psys sys user inp helper_out))
              = [P_pipe, P_fork, P_close_write, P_select (c_int (cfg_timeout c + 5)), P_read 15,
                 P_close_read, P_waitpid] @ log_if c ''DENY'')"
    by blast
qed


text \<open>The theorem for user 1000 with a helper that cannot be executed.\<close>

theorem exec_failure_denies_witness:
  "getpwuid (sys_alice\<lparr>execv_ok := False\<rparr>) (fst (target_ids (sys_alice\<lparr>execv_ok := False\<rparr>) ''alice''))
     = Some alice
   \<and> initgroups_ok (sys_alice\<lparr>execv_ok := False\<rparr>) \<and> setgid_ok (sys_alice\<lparr>execv_ok := False\<rparr>)
   \<and> setuid_ok (sys_alice\<lparr>execv_ok := False\<rparr>) \<and> dup2_ok (sys_alice\<lparr>execv_ok := False\<rparr>)
   \<and> \<not> execv_ok (sys_alice\<lparr>execv_ok := False\<rparr>)
   \<and> pipe_ok psys_data \<and> fork_ok psys_data \<and> 0 < select_ret psys_data \<and> read_ok psys_data
   \<and> run_helper_child (sys_alice\<lparr>execv_ok := False\<rparr>) ''alice'' [''helper'']
       = [C_close_read, C_setenv ''HOME'' ''/home/alice'', C_setenv ''USER'' ''alice'',
          C_setenv ''LOGNAME'' ''alice'', C_initgroups ''alice'' 1000, C_setgid 1000,
          C_setuid 1000, C_dup2_stdout, C_close_write, C_execv [''helper''],
          C_write_stdout (''DENY'' @ [LF]), C_exit 1]
   \<and> channel_content (run_helper_child (sys_alice\<lparr>execv_ok := False\<rparr>) ''alice'' [''helper''])
        [''ALLOW'' @ [LF]] = ''DENY'' @ [LF]
   \<and> fst (run_helper default_cfg psys_data (sys_alice\<lparr>execv_ok := False\<rparr>) ''alice'' spawn_example
            [''ALLOW'' @ [LF]]) = PAM_AUTH_ERR
   \<and> fst (snd (run_helper default_cfg psys_data (sys_alice\<lparr>execv_ok := False\<rparr>) ''alice''
                 spawn_example [''ALLOW'' @ [LF]]))
       = [P_pipe, P_fork, P_close_write, P_select 35, P_read 15, P_close_read, P_waitpid,
          P_syslog ''DENY'']"
  using exec_failure_denies
    [of "sys_alice\<lparr>execv_ok := False\<rparr>" "''alice''" "[''helper'']" "[''ALLOW'' @ [LF]]" psys_data
        default_cfg spawn_example]
  by (simp add: run_helper_child_def target_ids_def sys_alice_def alice_def psys_data_def
        default_cfg_def log_if_def atoi_def signed_digits_def c_int_def c_long_saturate_def
        isspace_def isdigit_def uid_of_int_def Let_def)



section \<open>The claims about the helper program\<close>

subsection \<open>A rejected session lock\<close>

text \<open>
  Claim C2, as amended. When the lock attempt fails at activation (no instance, or
  the compositor refuses the lock request), and when the \<open>failed\<close> signal arrives while
  the application is running, the helper sets its result to \<open>Deny\<close> and quits; \<open>main\<close>
  then writes the token \<open>DENY\<close> and a line feed to standard output, which is the pipe,
  and exits with \<open>EXIT_FAILURE\<close>. The parent that reads this token returns
  \<open>PAM_AUTH_ERR\<close>.
\<close>

theorem lock_rejection_denies:
  "(use_session_lock cf \<and> is_supported c \<and> (\<not> instance_new_ok c \<or> \<not> instance_lock_ok c)
      \<and> d \<noteq> []
      \<longrightarrow> helper_main \<lparr>parsed = Some cf, wayland_display = Some d, compositor = c,
                        activate_time = t0\<rparr> evs
            = Some (''DENY'' @ [LF], EXIT_FAILURE))
   \<and> (parsed env = Some cf1 \<and> wayland_display env = Some d1 \<and> d1 \<noteq> []
        \<and> use_session_lock cf1 \<and> is_supported (compositor env) \<and> instance_new_ok (compositor env)
        \<and> \<not> quit (app_run (on_activate (compositor env) (initial_state cf1) (activate_time env)) pre)
        \<longrightarrow> helper_main env (pre @ FailedSignal # post) = Some (''DENY'' @ [LF], EXIT_FAILURE))
   \<and> fst (run_helper_parent c2 sel (Some (''DENY'' @ [LF]))) = PAM_AUTH_ERR"
proof (intro conjI impI)
  assume a: "use_session_lock cf \<and> is_supported c \<and> (\<not> instance_new_ok c \<or> \<not> instance_lock_ok c)
      \<and> d \<noteq> []"
  then have q: "quit (on_activate c (initial_state cf) t0)
                \<and> result (on_activate c (initial_state cf) t0) = Deny"
    using activate_lock_refused by blast
  then have "app_run (on_activate c (initial_state cf) t0) evs = on_activate c (initial_state cf) t0"
    by (simp add: app_run_quit)
  with q a show "helper_main \<lparr>parsed = Some cf, wayland_display = Some d, compositor = c,
                        activate_time = t0\<rparr> evs
            = Some (''DENY'' @ [LF], EXIT_FAILURE)"
    by (simp add: helper_main_def Let_def)
next
  assume a: "parsed env = Some cf1 \<and> wayland_display env = Some d1 \<and> d1 \<noteq> []
        \<and> use_session_lock cf1 \<and> is_supported (compositor env) \<and> instance_new_ok (compositor env)
        \<and> \<not> quit (app_run (on_activate (compositor env) (initial_state cf1) (activate_time env)) pre)"
  then have "lock_instance (session_lock (on_activate (compositor env) (initial_state cf1)
                                            (activate_time env)))"
    using activate_connects by blast
  from failed_signal_denies [OF this, of pre post] a
  show "helper_main env (pre @ FailedSignal # post) = Some (''DENY'' @ [LF], EXIT_FAILURE)"
    by (intro helper_main_quit [of env cf1 d1]) simp_all
next
  show "fst (run_helper_parent c2 sel (Some (''DENY'' @ [LF]))) = PAM_AUTH_ERR"
    by (simp add: parent_code first_line_def NUL_def LF_def CR_def)
qed


text \<open>
  The theorem for a compositor that refuses the lock request, and for one that
  accepts it and sends \<open>failed\<close> after \<open>locked\<close>.
\<close>

theorem lock_rejection_denies_witness:
  "use_session_lock app_config_lock \<and> is_supported compositor_refusing
   \<and> \<not> instance_lock_ok compositor_refusing \<and> ''wayland-0'' \<noteq> []
   \<and> helper_main (main_env compositor_refusing) [] = Some (''DENY'' @ [LF], EXIT_FAILURE)
   \<and> is_supported compositor_accepting \<and> instance_new_ok compositor_accepting
   \<and> \<not> quit (app_run (on_activate compositor_accepting (initial_state app_config_lock) 0)
               [LockedSignal])
   \<and> helper_main (main_env compositor_accepting) [LockedSignal, FailedSignal, MonitorSignal 0 5]
       = Some (''DENY'' @ [LF], EXIT_FAILURE)
   \<and> fst (run_helper_parent default_cfg 1 (Some (''DENY'' @ [LF]))) = PAM_AUTH_ERR"
  using lock_rejection_denies
    [of app_config_lock compositor_refusing "''wayland-0''" 0 "[]" "main_env compositor_accepting"
        app_config_lock "''wayland-0''" "[LockedSignal]" "[MonitorSignal 0 5]" default_cfg 1]
  by (simp add: main_env_def app_config_lock_def compositor_refusing_def compositor_accepting_def
        on_activate_def on_activate_with_lock_def lock_def cleanup_def initial_state_def
        SessionLock_new_def on_locked_signal_def Let_def)


text \<open>
  The claim as written fails here: with a compositor that refuses the lock request
  the helper does not leave the pipe empty, it writes \<open>DENY\<close>; so it does when the
  \<open>failed\<close> signal arrives.
\<close>

theorem lock_rejection_denies_counterexample:
  "helper_main (main_env compositor_refusing) [] = Some (''DENY'' @ [LF], EXIT_FAILURE)
   \<and> helper_main (main_env compositor_refusing) [] \<noteq> Some ([], EXIT_FAILURE)
   \<and> helper_main (main_env compositor_accepting) [LockedSignal, FailedSignal]
       = Some (''DENY'' @ [LF], EXIT_FAILURE)"
  by (simp add: helper_main_def main_env_def app_config_lock_def compositor_refusing_def
        compositor_accepting_def on_activate_def on_activate_with_lock_def lock_def cleanup_def
        initial_state_def SessionLock_new_def on_locked_signal_def on_failed_signal_def Let_def)


subsection \<open>One prompt surface\<close>

text \<open>
  Claim C9. After a successful lock request, for every sequence of monitor
  notifications the first one is answered with the confirmation window, created from
  the parameters of the helper, and every later one with a blank window that is not
  decorated and has the opaque background \<open>#1a1a1a\<close>; the windows are assigned to the
  monitors in the order of the notifications. Whatever the compositor does and
  whatever events arrive, at most one assigned window is the confirmation window.
\<close>

theorem one_prompt_surface:
  "(use_session_lock cf \<and> is_supported c \<and> instance_new_ok c \<and> instance_lock_ok c \<longrightarrow>
      surfaces (app_run (on_activate c (initial_state cf) t0)
                  (LockedSignal # map (\<lambda>(m, t). MonitorSignal m t) ms))
        = (case ms of
             [] \<Rightarrow> []
           | (m, t) # rest \<Rightarrow>
               (m, Dialog) # map (\<lambda>(m, t). (m, Blank False ''window { background: #1a1a1a; }'')) rest)
      \<and> dialog (app_run (on_activate c (initial_state cf) t0)
                  (LockedSignal # map (\<lambda>(m, t). MonitorSignal m t) ms))
        = (case ms of
             [] \<Rightarrow> None
           | (m, t) # rest \<Rightarrow> Some (confirm_window_new (app_params cf) True t)))
   \<and> length (filter (\<lambda>s. snd s = Dialog) (surfaces (app_run (on_activate c1 (initial_state cf1) t1) evs)))
       \<le> 1"
proof (intro conjI impI)
  assume a: "use_session_lock cf \<and> is_supported c \<and> instance_new_ok c \<and> instance_lock_ok c"
  let ?st = "on_activate c (initial_state cf) t0"
  have st: "?st = (initial_state cf)\<lparr>app := True,
            session_lock := \<lparr>lock_instance = True, lock_state = Locking, instance_is_locked = False\<rparr>\<rparr>"
    using a activate_lock_ok by blast
  define st1 where "st1 = app_step ?st LockedSignal"
  have p: "lock_instance (session_lock st1)" "\<not> quit st1" "first_monitor st1"
    "surfaces st1 = []" "dialog st1 = None" "config st1 = cf" "\<not> quit ?st"
    unfolding st1_def st by (simp_all add: on_locked_signal_def initial_state_def)
  have r: "app_run ?st (LockedSignal # map (\<lambda>(m, t). MonitorSignal m t) ms)
        = app_run st1 (map (\<lambda>(m, t). MonitorSignal m t) ms)"
    using p(7) by (simp add: st1_def)
  have m: "surfaces (app_run st1 (map (\<lambda>(m, t). MonitorSignal m t) ms))
           = (case ms of [] \<Rightarrow> []
              | (m, t) # rest \<Rightarrow> (m, Dialog) # map (\<lambda>(m, t). (m, Blank False ''window { background: #1a1a1a; }'')) rest)
         \<and> dialog (app_run st1 (map (\<lambda>(m, t). MonitorSignal m t) ms))
           = (case ms of [] \<Rightarrow> dialog st1
              | (m, t) # rest \<Rightarrow> Some (confirm_window_new (app_params (config st1)) True t))"
    by (rule monitors_run [OF p(1-4)])
  from m show "surfaces (app_run ?st (LockedSignal # map (\<lambda>(m, t). MonitorSignal m t) ms))
        = (case ms of
             [] \<Rightarrow> []
           | (m, t) # rest \<Rightarrow>
               (m, Dialog) # map (\<lambda>(m, t). (m, Blank False ''window { background: #1a1a1a; }'')) rest)"
    unfolding r by blast
  from m show "dialog (app_run ?st (LockedSignal # map (\<lambda>(m, t). MonitorSignal m t) ms))
        = (case ms of
             [] \<Rightarrow> None
           | (m, t) # rest \<Rightarrow> Some (confirm_window_new (app_params cf) True t))"
    unfolding r p(5) p(6) by blast
next
  show "length (filter (\<lambda>s. snd s = Dialog) (surfaces (app_run (on_activate c1 (initial_state cf1) t1) evs)))
       \<le> 1"
    by (rule prompt_count_run) (simp_all add: activate_surfaces)
qed


text \<open>The theorem for three monitors.\<close>

theorem one_prompt_surface_witness:
  "use_session_lock app_config_lock \<and> is_supported compositor_accepting
   \<and> instance_new_ok compositor_accepting \<and> instance_lock_ok compositor_accepting
   \<and> surfaces (app_run (on_activate compositor_accepting (initial_state app_config_lock) 0)
                 [LockedSignal, MonitorSignal 7 10, MonitorSignal 3 11, MonitorSignal 5 12])
       = [(7, Dialog), (3, Blank False ''window { background: #1a1a1a; }''),
          (5, Blank False ''window { background: #1a1a1a; }'')]
   \<and> dialog (app_run (on_activate compositor_accepting (initial_state app_config_lock) 0)
                 [LockedSignal, MonitorSignal 7 10, MonitorSignal 3 11, MonitorSignal 5 12])
       = Some (confirm_window_new params_30s_550ms True 10)"
  using one_prompt_surface
    [of app_config_lock compositor_accepting 0 "[(7, 10), (3, 11), (5, 12)]"]
  by (simp add: app_config_lock_def compositor_accepting_def)



subsection \<open>The decision latch\<close>

lemma first_decision_fixes:
  assumes "snd (dispatch w e) = [r]"
  shows "snd (run_events w (e # rest)) = [r]"
proof -
  from assms dispatch_emits [of w e] have "result_sent (fst (dispatch w e))" by auto
  from run_events_after_decision [OF this, of rest] assms show ?thesis by simp
qed

lemma terminal_inputs:
  assumes "\<not> result_sent w" "has_on_result w"
  shows "snd (dispatch w DenyClicked) = [Deny]"
    and "snd (dispatch w (KeyPressed GDK_KEY_Escape)) = [Deny]"
    and "snd (dispatch w CloseRequest) = [Deny]"
    and "timer_source w \<Longrightarrow> timeout (params w) \<le> elapsed_ms w now sdiv 1000 \<Longrightarrow>
         snd (dispatch w (TimerTick now)) = [Timeout]"
  using assms
  by (simp_all add: on_deny_clicked_def on_key_pressed_def on_close_request_def
        on_timer_tick_def send_result_def Let_def)


text \<open>
  Claim C4. For every window and every sequence of inputs the result callback is
  called at most once. Once \<open>result_sent\<close> is set, whatever inputs follow call no
  callback and leave \<open>result_sent\<close> set; an accept, decline, key or close input then
  leaves the whole window unchanged. The first input that passes a result to the
  callback fixes the outcome: that result is the only one of the whole run. On an
  undecided window with a callback, a decline, the escape key and a close request
  give \<open>Deny\<close>, and a tick at or after the timeout gives \<open>Timeout\<close>. In the helper the
  result passed to the callback becomes the result of the application, which quits
  and handles no later event; and whenever \<open>main\<close> gets past its argument and display
  checks and the application quits, it writes exactly one token, \<open>ALLOW\<close>, \<open>DENY\<close> or
  \<open>TIMEOUT\<close>, followed by a line feed. The token is the one of the decision: when the
  application is running and an input makes its confirmation window pass a result to
  the callback, then, whatever events come after, \<open>main\<close> returns, what it has written
  is the token of that result and a line feed, and its exit status is \<open>EXIT_SUCCESS\<close>
  for \<open>Allow\<close> and \<open>EXIT_FAILURE\<close> otherwise.
\<close>

theorem decision_latch:
  "length (snd (run_events w evs)) \<le> 1
   \<and> (result_sent (fst (run_events w1 pre)) \<longrightarrow>
        snd (run_events w1 (pre @ post)) = snd (run_events w1 pre)
        \<and> result_sent (fst (run_events w1 (pre @ post))))
   \<and> (result_sent w2 \<and> (\<forall>t. e2 \<noteq> TimerTick t) \<longrightarrow> dispatch w2 e2 = (w2, []))
   \<and> (snd (dispatch w3 e3) = [r3] \<longrightarrow> snd (run_events w3 (e3 # rest3)) = [r3])
   \<and> (\<not> result_sent w4 \<and> has_on_result w4 \<longrightarrow>
        snd (dispatch w4 DenyClicked) = [Deny]
        \<and> snd (dispatch w4 (KeyPressed GDK_KEY_Escape)) = [Deny]
        \<and> snd (dispatch w4 CloseRequest) = [Deny]
        \<and> (timer_source w4 \<and> timeout (params w4) \<le> elapsed_ms w4 now4 sdiv 1000 \<longrightarrow>
             snd (dispatch w4 (TimerTick now4)) = [Timeout]))
   \<and> (\<not> quit st \<and> app st \<and> dialog st = Some w5 \<and> snd (dispatch w5 e5) = [r5] \<longrightarrow>
        quit (app_run st (WindowEvent e5 # rest5))
        \<and> result (app_run st (WindowEvent e5 # rest5)) = r5)
   \<and> (parsed env = Some cf \<and> wayland_display env = Some d \<and> d \<noteq> []
        \<and> helper_main env aevs = Some (out, code) \<longrightarrow>
        out = ''ALLOW'' @ [LF] \<or> out = ''DENY'' @ [LF] \<or> out = ''TIMEOUT'' @ [LF])
   \<and> (parsed env6 = Some cf6 \<and> wayland_display env6 = Some d6 \<and> d6 \<noteq> []
        \<and> \<not> quit (app_run (on_activate (compositor env6) (initial_state cf6) (activate_time env6))
                    apre)
        \<and> dialog (app_run (on_activate (compositor env6) (initial_state cf6) (activate_time env6))
                    apre) = Some w6
        \<and> snd (dispatch w6 e6) = [r6] \<longrightarrow>
        helper_main env6 (apre @ WindowEvent e6 # apost)
          = Some (to_string r6 @ [LF], if r6 = Allow then EXIT_SUCCESS else EXIT_FAILURE))"
proof (intro conjI impI)
  show "length (snd (run_events w evs)) \<le> 1" by (rule run_events_at_most_one)
next
  assume a: "result_sent (fst (run_events w1 pre))"
  from run_events_after_decision [OF a, of post]
  show "snd (run_events w1 (pre @ post)) = snd (run_events w1 pre)"
    and "result_sent (fst (run_events w1 (pre @ post)))"
    by (simp_all add: run_events_append)
next
  assume "result_sent w2 \<and> (\<forall>t. e2 \<noteq> TimerTick t)"
  then show "dispatch w2 e2 = (w2, [])" using dispatch_input_after_decision by blast
next
  assume "snd (dispatch w3 e3) = [r3]"
  then show "snd (run_events w3 (e3 # rest3)) = [r3]" by (rule first_decision_fixes)
next
  assume a: "\<not> result_sent w4 \<and> has_on_result w4"
  then show "snd (dispatch w4 DenyClicked) = [Deny]"
    and "snd (dispatch w4 (KeyPressed GDK_KEY_Escape)) = [Deny]"
    and "snd (dispatch w4 CloseRequest) = [Deny]"
    using terminal_inputs by blast+
  assume "timer_source w4 \<and> timeout (params w4) \<le> elapsed_ms w4 now4 sdiv 1000"
  with a show "snd (dispatch w4 (TimerTick now4)) = [Timeout]"
    using terminal_inputs(4) by blast
next
  assume a: "\<not> quit st \<and> app st \<and> dialog st = Some w5 \<and> snd (dispatch w5 e5) = [r5]"
  then show "quit (app_run st (WindowEvent e5 # rest5))"
    and "result (app_run st (WindowEvent e5 # rest5)) = r5"
    using window_decision_quits [of st w5 e5 r5 rest5] by blast+
next
  assume "parsed env = Some cf \<and> wayland_display env = Some d \<and> d \<noteq> []
        \<and> helper_main env aevs = Some (out, code)"
  then show "out = ''ALLOW'' @ [LF] \<or> out = ''DENY'' @ [LF] \<or> out = ''TIMEOUT'' @ [LF]"
    using helper_main_token [of env cf d aevs out code] by blast
next
  assume "parsed env6 = Some cf6 \<and> wayland_display env6 = Some d6 \<and> d6 \<noteq> []
        \<and> \<not> quit (app_run (on_activate (compositor env6) (initial_state cf6) (activate_time env6))
                    apre)
        \<and> dialog (app_run (on_activate (compositor env6) (initial_state cf6) (activate_time env6))
                    apre) = Some w6
        \<and> snd (dispatch w6 e6) = [r6]"
  then have h: "parsed env6 = Some cf6" "wayland_display env6 = Some d6" "d6 \<noteq> []"
    and q: "\<not> quit (app_run (on_activate (compositor env6) (initial_state cf6)
                                  (activate_time env6)) apre)"
    and w: "dialog (app_run (on_activate (compositor env6) (initial_state cf6)
                               (activate_time env6)) apre) = Some w6"
    and r: "snd (dispatch w6 e6) = [r6]"
    by blast+
  let ?st = "app_run (on_activate (compositor env6) (initial_state cf6) (activate_time env6)) apre"
  have "app ?st" by (simp add: app_run_keeps app_on_activate)
  then have s: "app_step ?st (WindowEvent e6) = (?st\<lparr>dialog := Some (fst (dispatch w6 e6))\<rparr>)
                  \<lparr>result := r6,
                   session_lock := (if is_locked (session_lock ?st) then unlock (session_lock ?st)
                                    else session_lock ?st),
                   quit := True\<rparr>"
    using w r by (simp add: on_result_def Let_def)
  have "app_run ?st (WindowEvent e6 # apost) = app_step ?st (WindowEvent e6)"
    using q by (simp add: s app_run_quit del: app_step.simps)
  then have "app_run (on_activate (compositor env6) (initial_state cf6) (activate_time env6))
               (apre @ WindowEvent e6 # apost) = app_step ?st (WindowEvent e6)"
    by (simp add: app_run_append del: app_step.simps)
  then show "helper_main env6 (apre @ WindowEvent e6 # apost)
          = Some (to_string r6 @ [LF], if r6 = Allow then EXIT_SUCCESS else EXIT_FAILURE)"
    using h by (simp add: helper_main_def s Let_def del: app_step.simps)
qed



text \<open>
  The theorem on a window created at time 0 (timeout 30 s, minimum display time
  550 ms) and on a helper run with one monitor.
\<close>

lemmas eval_defs = params_30s_550ms_def confirm_window_new_def elapsed_ms_def
        on_timer_tick_def on_allow_clicked_def on_deny_clicked_def on_key_pressed_def
        on_close_request_def send_result_def signed_divide_int_def Let_def
        main_env_def app_config_lock_def compositor_accepting_def
        on_activate_def on_activate_with_lock_def lock_def cleanup_def initial_state_def
        SessionLock_new_def on_locked_signal_def on_monitor_signal_def monitor_callback_def
        on_result_def is_locked_def unlock_def helper_main_def EXIT_SUCCESS_def

theorem decision_latch_witness:
  "length (snd (run_events (confirm_window_new params_30s_550ms True 0)
                  [DenyClicked, AllowClicked 700000, CloseRequest])) \<le> 1
   \<and> result_sent (fst (run_events (confirm_window_new params_30s_550ms True 0) [DenyClicked]))
   \<and> snd (run_events (confirm_window_new params_30s_550ms True 0)
            ([DenyClicked] @ [TimerTick 40000000, AllowClicked 700000])) = [Deny]
   \<and> dispatch (fst (dispatch (confirm_window_new params_30s_550ms True 0) DenyClicked)) CloseRequest
       = (fst (dispatch (confirm_window_new params_30s_550ms True 0) DenyClicked), [])
   \<and> snd (run_events (confirm_window_new params_30s_550ms True 0)
            [KeyPressed GDK_KEY_Escape, AllowClicked 700000]) = [Deny]
   \<and> \<not> result_sent (confirm_window_new params_30s_550ms True 0)
   \<and> has_on_result (confirm_window_new params_30s_550ms True 0)
   \<and> snd (dispatch (confirm_window_new params_30s_550ms True 0) (TimerTick 30000000)) = [Timeout]
   \<and> dialog (app_run (on_activate compositor_accepting (initial_state app_config_lock) 0)
               [LockedSignal, MonitorSignal 0 0])
       = Some (confirm_window_new params_30s_550ms True 0)
   \<and> result (app_run (app_run (on_activate compositor_accepting (initial_state app_config_lock) 0)
                         [LockedSignal, MonitorSignal 0 0])
               [WindowEvent DenyClicked, WindowEvent (AllowClicked 700000)]) = Deny
   \<and> helper_main (main_env compositor_accepting)
        [LockedSignal, MonitorSignal 0 0, WindowEvent (TimerTick 600000),
         WindowEvent (AllowClicked 700000), WindowEvent DenyClicked]
       = Some (''ALLOW'' @ [LF], EXIT_SUCCESS)
   \<and> \<not> quit (app_run (on_activate compositor_accepting (initial_state app_config_lock) 0)
               [LockedSignal, MonitorSignal 0 0, WindowEvent (AllowClicked 100000)])
   \<and> snd (dispatch (confirm_window_new params_30s_550ms True 0) DenyClicked) = [Deny]
   \<and> helper_main (main_env compositor_accepting)
        ([LockedSignal, MonitorSignal 0 0, WindowEvent (AllowClicked 100000)]
         @ WindowEvent DenyClicked # [WindowEvent (AllowClicked 700000), FailedSignal])
       = Some (''DENY'' @ [LF], EXIT_FAILURE)"
  using decision_latch
    [of "confirm_window_new params_30s_550ms True 0"
        "[DenyClicked, AllowClicked 700000, CloseRequest]"
        "confirm_window_new params_30s_550ms True 0" "[DenyClicked]"
        "[TimerTick 40000000, AllowClicked 700000]"
        "fst (dispatch (confirm_window_new params_30s_550ms True 0) DenyClicked)" CloseRequest
        "confirm_window_new params_30s_550ms True 0" "KeyPressed GDK_KEY_Escape" Deny
        "[AllowClicked 700000]"
        "confirm_window_new params_30s_550ms True 0" 30000000
        "app_run (on_activate compositor_accepting (initial_state app_config_lock) 0)
           [LockedSignal, MonitorSignal 0 0]"
        "confirm_window_new params_30s_550ms True 0" DenyClicked Deny
        "[WindowEvent (AllowClicked 700000)]"
        "main_env compositor_accepting" app_config_lock "''wayland-0''"
        "[LockedSignal, MonitorSignal 0 0, WindowEvent (TimerTick 600000),
          WindowEvent (AllowClicked 700000), WindowEvent DenyClicked]"
        "''ALLOW'' @ [LF]" EXIT_SUCCESS
        "main_env compositor_accepting" app_config_lock "''wayland-0''"
        "[LockedSignal, MonitorSignal 0 0, WindowEvent (AllowClicked 100000)]"
        "confirm_window_new params_30s_550ms True 0" DenyClicked Deny
        "[WindowEvent (AllowClicked 700000), FailedSignal]"]
  by (simp add: eval_defs EXIT_FAILURE_def)


end
